theory Spec2Isabelle
  imports Complex_Main
begin

section \<open>Monocular visual odometry (Slam\_v1.py): a shallow embedding\<close>

text \<open>
  The program estimates a camera trajectory from consecutive video frames. Its own code
  is the class \<open>CameraPoses\<close> (\<open>get_matches\<close>, \<open>get_pose\<close>,
  \<open>decomp_essential_mat_old\<close>, \<open>decomp_essential_mat\<close>, \<open>_form_transf\<close>,
  \<open>_load_images\<close>) and the video loop at module level. Everything it calls in OpenCV
  (\<open>detectAndCompute\<close>, \<open>knnMatch\<close>, \<open>findEssentialMat\<close>,
  \<open>decomposeEssentialMat\<close>, \<open>triangulatePoints\<close>) is library code outside the
  repository: those five functions are fields of a record that every operation takes as a
  parameter, and nothing is assumed about what they return beyond its type.
\<close>

subsection \<open>Floating-point values\<close>

text \<open>
  NumPy arrays here hold IEEE doubles. A value is a finite number, one of the two
  infinities, or NaN. The special values follow the IEEE rules (\<open>inf - inf\<close>,
  \<open>0 * inf\<close>, \<open>0 / 0\<close> and \<open>inf / inf\<close> are NaN, \<open>x / 0\<close> is an
  infinity, every comparison with NaN is false), and a result overflows to an infinity
  where round-to-nearest does: from \<open>2^1024 - 2^970\<close> on.

  A finite value is carried as an exact real, and a finite result is kept exact: the
  rounding of a result to the nearest double, subnormals, the sign of zero, and the single
  precision of the arrays that OpenCV returns for single-precision points are not
  represented. The model and NumPy agree on an operation whose exact result is a double
  (or overflows); they may differ where NumPy rounds. The theorems below that hold for all
  inputs do not depend on how a finite result is rounded, and the example inputs are
  small integers and powers of two, on which every operation is exact.
\<close>

datatype fl = Fin real | PInf | NInf | NaN

definition MAXF :: real where
  "MAXF = 2 ^ 1024 - 2 ^ 971"

text \<open>
  The largest double, the least magnitude that rounds to an infinity, and the result of an
  operation whose exact value is \<open>r\<close>.
\<close>

definition OVERFLOW :: real where
  "OVERFLOW = 2 ^ 1024 - 2 ^ 970"

definition rnd :: "real \<Rightarrow> fl" where
  "rnd r = (if OVERFLOW \<le> r then PInf
            else if r \<le> - OVERFLOW then NInf
            else if MAXF < r then Fin MAXF
            else if r < - MAXF then Fin (- MAXF)
            else Fin r)"

fun fneg :: "fl \<Rightarrow> fl" where
  "fneg (Fin x) = Fin (- x)"
| "fneg PInf = NInf"
| "fneg NInf = PInf"
| "fneg NaN = NaN"

fun fadd :: "fl \<Rightarrow> fl \<Rightarrow> fl" where
  "fadd (Fin x) (Fin y) = rnd (x + y)"
| "fadd (Fin x) PInf = PInf"
| "fadd (Fin x) NInf = NInf"
| "fadd PInf (Fin y) = PInf"
| "fadd PInf PInf = PInf"
| "fadd PInf NInf = NaN"
| "fadd NInf (Fin y) = NInf"
| "fadd NInf PInf = NaN"
| "fadd NInf NInf = NInf"
| "fadd NaN b = NaN"
| "fadd a NaN = NaN"

definition fsub :: "fl \<Rightarrow> fl \<Rightarrow> fl" where
  "fsub a b = fadd a (fneg b)"

fun fmul :: "fl \<Rightarrow> fl \<Rightarrow> fl" where
  "fmul (Fin x) (Fin y) = rnd (x * y)"
| "fmul (Fin x) PInf = (if x = 0 then NaN else if 0 < x then PInf else NInf)"
| "fmul (Fin x) NInf = (if x = 0 then NaN else if 0 < x then NInf else PInf)"
| "fmul PInf (Fin y) = (if y = 0 then NaN else if 0 < y then PInf else NInf)"
| "fmul NInf (Fin y) = (if y = 0 then NaN else if 0 < y then NInf else PInf)"
| "fmul PInf PInf = PInf"
| "fmul PInf NInf = NInf"
| "fmul NInf PInf = NInf"
| "fmul NInf NInf = PInf"
| "fmul NaN b = NaN"
| "fmul a NaN = NaN"

fun fdiv :: "fl \<Rightarrow> fl \<Rightarrow> fl" where
  "fdiv (Fin x) (Fin y) =
     (if y = 0 then (if x = 0 then NaN else if 0 < x then PInf else NInf)
      else rnd (x / y))"
| "fdiv (Fin x) PInf = Fin 0"
| "fdiv (Fin x) NInf = Fin 0"
| "fdiv PInf (Fin y) = (if 0 \<le> y then PInf else NInf)"
| "fdiv NInf (Fin y) = (if 0 \<le> y then NInf else PInf)"
| "fdiv PInf PInf = NaN"
| "fdiv PInf NInf = NaN"
| "fdiv NInf PInf = NaN"
| "fdiv NInf NInf = NaN"
| "fdiv NaN b = NaN"
| "fdiv a NaN = NaN"

fun fsqrt :: "fl \<Rightarrow> fl" where
  "fsqrt (Fin x) = (if x < 0 then NaN else Fin (sqrt x))"
| "fsqrt PInf = PInf"
| "fsqrt NInf = NaN"
| "fsqrt NaN = NaN"

text \<open>\<open>a > b\<close> on doubles.\<close>

fun fgt :: "fl \<Rightarrow> fl \<Rightarrow> bool" where
  "fgt (Fin x) (Fin y) = (y < x)"
| "fgt (Fin x) PInf = False"
| "fgt (Fin x) NInf = True"
| "fgt PInf (Fin y) = True"
| "fgt PInf PInf = False"
| "fgt PInf NInf = True"
| "fgt NInf b = False"
| "fgt NaN b = False"
| "fgt a NaN = False"

definition flt :: "fl \<Rightarrow> fl \<Rightarrow> bool" where
  "flt a b = fgt b a"

text \<open>\<open>np.isnan\<close>, \<open>np.isinf\<close>; a value is finite when it is neither.\<close>

definition isnan :: "fl \<Rightarrow> bool" where
  "isnan a = (a = NaN)"

definition isinf :: "fl \<Rightarrow> bool" where
  "isinf a = (a = PInf \<or> a = NInf)"

definition isfinite :: "fl \<Rightarrow> bool" where
  "isfinite a = (\<not> isnan a \<and> \<not> isinf a)"

text \<open>A finite value that a double can hold: its magnitude is at most the largest double.\<close>

fun is_double :: "fl \<Rightarrow> bool" where
  "is_double (Fin x) = (\<bar>x\<bar> \<le> MAXF)"
| "is_double PInf = False"
| "is_double NInf = False"
| "is_double NaN = False"

subsection \<open>Arrays\<close>

text \<open>
  A one-dimensional array is a list, a two-dimensional array the list of its rows. The
  arrays of the program have the shapes OpenCV gives them (3 by 3, 3 by 1, 4 by N); the
  shape errors NumPy raises on other shapes are not part of the model, and a theorem that
  depends on a shape states it.
\<close>

type_synonym vec = "fl list"
type_synonym mat = "fl list list"

definition ncols :: "'a list list \<Rightarrow> nat" where
  "ncols M = (case M of [] \<Rightarrow> 0 | r # _ \<Rightarrow> length r)"

text \<open>\<open>M.T\<close>: row \<open>j\<close> of the transpose is column \<open>j\<close> of \<open>M\<close>.\<close>

definition np_T :: "'a list list \<Rightarrow> 'a list list" where
  "np_T M = map (\<lambda>j. map (\<lambda>r. r ! j) M) [0..<ncols M]"

text \<open>\<open>np.sum\<close> of a vector of doubles, and the inner product of a row with a column.\<close>

definition fsum :: "vec \<Rightarrow> fl" where
  "fsum xs = foldl fadd (Fin 0) xs"

definition dot :: "vec \<Rightarrow> vec \<Rightarrow> fl" where
  "dot u v = fsum (map2 fmul u v)"

text \<open>\<open>A @ B\<close> (\<open>np.matmul\<close>).\<close>

definition matmul :: "mat \<Rightarrow> mat \<Rightarrow> mat" where
  "matmul A B = map (\<lambda>row. map (\<lambda>col. dot row col) (np_T B)) A"

text \<open>\<open>np.eye(n)\<close>.\<close>

definition eye :: "nat \<Rightarrow> mat" where
  "eye n = map (\<lambda>i. map (\<lambda>j. if i = j then Fin 1 else Fin 0) [0..<n]) [0..<n]"

text \<open>\<open>np.any(np.isnan(M)) or np.any(np.isinf(M))\<close>, the test \<open>get_pose\<close> applies.\<close>

definition any_nan :: "mat \<Rightarrow> bool" where
  "any_nan M = list_ex (list_ex isnan) M"

definition any_inf :: "mat \<Rightarrow> bool" where
  "any_inf M = list_ex (list_ex isinf) M"

definition any_nan_v :: "vec \<Rightarrow> bool" where
  "any_nan_v v = list_ex isnan v"

definition any_inf_v :: "vec \<Rightarrow> bool" where
  "any_inf_v v = list_ex isinf v"

definition all_finite :: "mat \<Rightarrow> bool" where
  "all_finite M = list_all (list_all isfinite) M"

text \<open>An \<open>m\<close> by \<open>n\<close> array.\<close>

definition shape :: "'a list list \<Rightarrow> nat \<Rightarrow> nat \<Rightarrow> bool" where
  "shape M m n = (length M = m \<and> list_all (\<lambda>r. length r = n) M)"

text \<open>
  \<open>_form_transf(R, t)\<close>:
  \<^verbatim>\<open>T = np.eye(4, dtype=np.float64); T[:3, :3] = R; T[:3, 3] = t; return T\<close>
\<close>

definition form_transf :: "mat \<Rightarrow> vec \<Rightarrow> mat" where
  "form_transf R t =
     map (\<lambda>i. map (\<lambda>j. if i < 3 \<and> j < 3 then R ! i ! j
                         else if i < 3 \<and> j = 3 then t ! i
                         else if i = j then Fin 1 else Fin 0) [0..<4]) [0..<4]"

subsection \<open>The OpenCV functions and the objects they return\<close>

datatype py_error = IndexError | ValueError | Cv2Error

text \<open>\<open>cv2.KeyPoint\<close> (only \<open>pt\<close> is read) and \<open>cv2.DMatch\<close>.\<close>

record keypoint =
  pt :: "fl \<times> fl"

record dmatch =
  distance :: fl
  queryIdx :: int
  trainIdx :: int

text \<open>
  The object \<open>vo\<close>: the intrinsic matrix \<open>K\<close> and the OpenCV functions it calls,
  over frames \<open>'f\<close> and descriptor arrays \<open>'d\<close>. \<open>detectAndCompute\<close> stands for
  \<open>self.orb.detectAndCompute(img, None)\<close>, \<open>knnMatch\<close> for
  \<open>self.flann.knnMatch(des1, des2, k=2)\<close>, \<open>findEssentialMat\<close> for the first
  component of \<open>cv2.findEssentialMat(q1, q2, self.K)\<close>. The list \<open>world_points\<close>,
  the one field the object mutates, is passed and returned explicitly.
\<close>

record ('f, 'd) camera_poses =
  K :: mat
  detectAndCompute :: "'f \<Rightarrow> keypoint list \<times> 'd"
  knnMatch :: "'d \<Rightarrow> 'd \<Rightarrow> dmatch list list"
  findEssentialMat :: "mat \<Rightarrow> mat \<Rightarrow> mat"
  decomposeEssentialMat :: "mat \<Rightarrow> mat \<times> mat \<times> mat"
  triangulatePoints :: "mat \<Rightarrow> mat \<Rightarrow> mat \<Rightarrow> mat \<Rightarrow> mat"

text \<open>
  \<open>self.extrinsic\<close> and \<open>self.P = self.K @ self.extrinsic\<close> of the constructor.
\<close>

definition extrinsic :: mat where
  "extrinsic = [[Fin 1, Fin 0, Fin 0, Fin 0],
                [Fin 0, Fin 1, Fin 0, Fin 0],
                [Fin 0, Fin 0, Fin 1, Fin 0]]"

definition self_P :: "('f, 'd) camera_poses \<Rightarrow> mat" where
  "self_P vo = matmul (K vo) extrinsic"

text \<open>\<open>np.concatenate((self.K, np.zeros((3, 1))), axis=1)\<close>.\<close>

definition K_zeros :: "('f, 'd) camera_poses \<Rightarrow> mat" where
  "K_zeros vo = map2 (@) (K vo) [[Fin 0], [Fin 0], [Fin 0]]"

subsection \<open>\<open>get_matches\<close>\<close>

text \<open>
  \<^verbatim>\<open>
  good_matches = []
  try:
      for m, n in matches:
          if m.distance < 0.5 * n.distance:
              good_matches.append(m)
  except ValueError:
      pass
  \<close>
  Unpacking an entry that does not have exactly two elements raises \<open>ValueError\<close>.
  The handler encloses the loop, so the loop ends there and \<open>good_matches\<close> keeps what
  it held.
\<close>

fun ratio_loop :: "dmatch list list \<Rightarrow> dmatch list \<Rightarrow> dmatch list" where
  "ratio_loop [] good = good"
| "ratio_loop ([m, n] # rest) good =
     ratio_loop rest
       (if flt (distance m) (fmul (Fin (1/2)) (distance n)) then good @ [m] else good)"
| "ratio_loop (e # rest) good = good"

text \<open>
  \<open>kp[i]\<close> on a Python tuple of \<open>n\<close> entries: the indices \<open>0 .. n - 1\<close>
  read from the front, \<open>-n .. -1\<close> from the back, any other raises \<open>IndexError\<close>
  (the result \<open>None\<close> here).
\<close>

definition py_get :: "'a list \<Rightarrow> int \<Rightarrow> 'a option" where
  "py_get xs i =
     (if 0 \<le> i \<and> i < int (length xs) then Some (xs ! nat i)
      else if - int (length xs) \<le> i \<and> i < 0 then Some (xs ! nat (int (length xs) + i))
      else None)"

text \<open>\<open>[kp[idx(m)].pt for m in good_matches]\<close>, each point a row \<open>[x, y]\<close>.\<close>

fun points_of :: "keypoint list \<Rightarrow> (dmatch \<Rightarrow> int) \<Rightarrow> dmatch list \<Rightarrow> py_error + mat" where
  "points_of kp idx [] = Inr []"
| "points_of kp idx (m # ms) =
     (case py_get kp (idx m) of
        None \<Rightarrow> Inl IndexError
      | Some k \<Rightarrow>
          (case points_of kp idx ms of
             Inl e \<Rightarrow> Inl e
           | Inr rows \<Rightarrow> Inr ([fst (pt k), snd (pt k)] # rows)))"

text \<open>
  The result \<open>None\<close> stands for the pair \<open>(None, None)\<close> that \<open>get_matches\<close>
  returns when an image has 6 keypoints or fewer.
\<close>

definition get_matches ::
  "('f, 'd) camera_poses \<Rightarrow> 'f \<Rightarrow> 'f \<Rightarrow> py_error + (mat \<times> mat) option" where
  "get_matches vo img1 img2 =
     (let (kp1, des1) = detectAndCompute vo img1;
          (kp2, des2) = detectAndCompute vo img2
      in if length kp1 > 6 \<and> length kp2 > 6 then
           (let matches = knnMatch vo des1 des2;
                good_matches = ratio_loop matches []
            in case points_of kp1 queryIdx good_matches of
                 Inl e \<Rightarrow> Inl e
               | Inr q1 \<Rightarrow>
                   (case points_of kp2 trainIdx good_matches of
                      Inl e \<Rightarrow> Inl e
                    | Inr q2 \<Rightarrow> Inr (Some (q1, q2))))
         else Inr None)"

subsection \<open>The pose disambiguator\<close>

text \<open>\<open>hom[:3, :] / hom[3, :]\<close>: each of the first three rows divided by the fourth.\<close>

definition normalize_hom :: "mat \<Rightarrow> mat" where
  "normalize_hom hom = map (\<lambda>row. map2 fdiv row (hom ! 3)) (take 3 hom)"

text \<open>\<open>sum(v > 0)\<close>, Python's \<open>sum\<close> over a Boolean array: an integer.\<close>

definition count_pos :: "vec \<Rightarrow> int" where
  "count_pos v = int (length (filter (\<lambda>z. fgt z (Fin 0)) v))"

text \<open>\<open>np.linalg.norm(v)\<close> along the last axis: \<open>sqrt(add.reduce(v * v))\<close>.\<close>

definition np_norm :: "vec \<Rightarrow> fl" where
  "np_norm v = fsqrt (fsum (map (\<lambda>x. fmul x x) v))"

text \<open>\<open>np.linalg.norm(Q.T[:-1] - Q.T[1:], axis=-1)\<close>.\<close>

definition succ_dists :: "mat \<Rightarrow> vec" where
  "succ_dists Q = map np_norm (map2 (map2 fsub) (butlast (np_T Q)) (tl (np_T Q)))"

text \<open>\<open>np.mean\<close>: the sum divided by the number of entries (NaN for none).\<close>

definition np_mean :: "vec \<Rightarrow> fl" where
  "np_mean xs = fdiv (fsum xs) (Fin (real (length xs)))"

definition relative_scale_of :: "mat \<Rightarrow> mat \<Rightarrow> fl" where
  "relative_scale_of Q1 Q2 = np_mean (map2 fdiv (succ_dists Q1) (succ_dists Q2))"

text \<open>
  The local function of \<open>decomp_essential_mat_old\<close>:
  \<^verbatim>\<open>
  def sum_z_cal_relative_scale(R, t):
      T = self._form_transf(R, t)
      P = np.matmul(np.concatenate((self.K, np.zeros((3, 1))), axis=1), T)
      hom_Q1 = cv2.triangulatePoints(self.P, P, q1.T, q2.T)
      hom_Q2 = np.matmul(T, hom_Q1)
      Q1 = hom_Q1[:3, :] / hom_Q1[3, :]
      Q2 = hom_Q2[:3, :] / hom_Q2[3, :]
      sum_of_pos_z_Q1 = sum(Q1[2, :] > 0)
      sum_of_pos_z_Q2 = sum(Q2[2, :] > 0)
      relative_scale = np.mean(np.linalg.norm(Q1.T[:-1] - Q1.T[1:], axis=-1) /
                               np.linalg.norm(Q2.T[:-1] - Q2.T[1:], axis=-1))
      return sum_of_pos_z_Q1 + sum_of_pos_z_Q2, relative_scale
  \<close>
\<close>

definition tri_old :: "('f, 'd) camera_poses \<Rightarrow> mat \<Rightarrow> mat \<Rightarrow> mat \<Rightarrow> vec \<Rightarrow> mat" where
  "tri_old vo q1 q2 R t =
     triangulatePoints vo (self_P vo) (matmul (K_zeros vo) (form_transf R t)) (np_T q1) (np_T q2)"

definition sum_z_cal_relative_scale ::
  "('f, 'd) camera_poses \<Rightarrow> mat \<Rightarrow> mat \<Rightarrow> mat \<Rightarrow> vec \<Rightarrow> int \<times> fl" where
  "sum_z_cal_relative_scale vo q1 q2 R t =
     (let T = form_transf R t;
          hom_Q1 = tri_old vo q1 q2 R t;
          hom_Q2 = matmul T hom_Q1;
          Q1 = normalize_hom hom_Q1;
          Q2 = normalize_hom hom_Q2;
          sum_of_pos_z_Q1 = count_pos (Q1 ! 2);
          sum_of_pos_z_Q2 = count_pos (Q2 ! 2);
          relative_scale = relative_scale_of Q1 Q2
      in (sum_of_pos_z_Q1 + sum_of_pos_z_Q2, relative_scale))"

text \<open>
  \<open>np.argmax\<close> of a list of integers: the index of the first greatest entry. The lists
  of the program have four entries.
\<close>

fun np_argmax :: "int list \<Rightarrow> nat" where
  "np_argmax [] = 0"
| "np_argmax [x] = 0"
| "np_argmax (x # xs) = (let j = np_argmax xs in if x < xs ! j then Suc j else 0)"

text \<open>\<open>np.squeeze(t)\<close> of a 3 by 1 array, and \<open>-t\<close>, \<open>t * s\<close> on a vector.\<close>

definition squeeze :: "mat \<Rightarrow> vec" where
  "squeeze t = concat t"

definition vneg :: "vec \<Rightarrow> vec" where
  "vneg t = map fneg t"

definition vscale :: "vec \<Rightarrow> fl \<Rightarrow> vec" where
  "vscale t s = map (\<lambda>x. fmul x s) t"

text \<open>
  \<^verbatim>\<open>
  R1, R2, t = cv2.decomposeEssentialMat(E)
  t = np.squeeze(t)
  pairs = [[R1, t], [R1, -t], [R2, t], [R2, -t]]
  \<close>
\<close>

definition pairs_of :: "('f, 'd) camera_poses \<Rightarrow> mat \<Rightarrow> (mat \<times> vec) list" where
  "pairs_of vo E =
     (let (R1, R2, t0) = decomposeEssentialMat vo E;
          t = squeeze t0
      in [(R1, t), (R1, vneg t), (R2, t), (R2, vneg t)])"

text \<open>
  \<^verbatim>\<open>
  z_sums = []
  relative_scales = []
  for R, t in pairs:
      z_sum, scale = sum_z_cal_relative_scale(R, t)
      z_sums.append(z_sum)
      relative_scales.append(scale)
  right_pair_idx = np.argmax(z_sums)
  \<close>
\<close>

definition z_sums_of :: "('f, 'd) camera_poses \<Rightarrow> mat \<Rightarrow> mat \<Rightarrow> mat \<Rightarrow> int list" where
  "z_sums_of vo E q1 q2 =
     map (\<lambda>(R, t). fst (sum_z_cal_relative_scale vo q1 q2 R t)) (pairs_of vo E)"

definition relative_scales_of :: "('f, 'd) camera_poses \<Rightarrow> mat \<Rightarrow> mat \<Rightarrow> mat \<Rightarrow> fl list" where
  "relative_scales_of vo E q1 q2 =
     map (\<lambda>(R, t). snd (sum_z_cal_relative_scale vo q1 q2 R t)) (pairs_of vo E)"

definition right_pair_idx :: "('f, 'd) camera_poses \<Rightarrow> mat \<Rightarrow> mat \<Rightarrow> mat \<Rightarrow> nat" where
  "right_pair_idx vo E q1 q2 = np_argmax (z_sums_of vo E q1 q2)"

text \<open>
  \<^verbatim>\<open>
  right_pair = pairs[right_pair_idx]
  relative_scale = relative_scales[right_pair_idx]
  R1, t = right_pair
  t = t * relative_scale
  T = self._form_transf(R1, t)
  P = np.matmul(np.concatenate((self.K, np.zeros((3, 1))), axis=1), T)
  hom_Q1 = cv2.triangulatePoints(P, P, q1.T, q2.T)
  hom_Q2 = np.matmul(T, hom_Q1)
  Q1 = hom_Q1[:3, :] / hom_Q1[3, :]
  Q2 = hom_Q2[:3, :] / hom_Q2[3, :]
  self.world_points.append(Q1)
  return [R1, t]
  \<close>
  The result is the pair \<open>[R1, t]\<close> with the new \<open>world_points\<close>.
\<close>

definition decomp_essential_mat_old ::
  "('f, 'd) camera_poses \<Rightarrow> mat \<Rightarrow> mat \<Rightarrow> mat \<Rightarrow> mat list \<Rightarrow> (mat \<times> vec) \<times> mat list" where
  "decomp_essential_mat_old vo E q1 q2 wp =
     (let pairs = pairs_of vo E;
          idx = right_pair_idx vo E q1 q2;
          right_pair = pairs ! idx;
          relative_scale = relative_scales_of vo E q1 q2 ! idx;
          R1 = fst right_pair;
          t = vscale (snd right_pair) relative_scale;
          T = form_transf R1 t;
          P = matmul (K_zeros vo) T;
          hom_Q1 = triangulatePoints vo P P (np_T q1) (np_T q2);
          Q1 = normalize_hom hom_Q1
      in ((R1, t), wp @ [Q1]))"

text \<open>
  \<open>decomp_essential_mat\<close>, which nothing in the program calls. It scores each
  candidate by the sum of the count and the relative scale:
  \<^verbatim>\<open>
  transformations = [T1, T2, T3, T4]      # (R1, t), (R2, t), (R1, -t), (R2, -t)
  projections = [K @ T1, K @ T2, K @ T3, K @ T4]
  positives = []
  for P, T in zip(projections, transformations):
      hom_Q1 = cv2.triangulatePoints(P, P, q1.T, q2.T)
      hom_Q2 = T @ hom_Q1
      Q1 = hom_Q1[:3, :] / hom_Q1[3, :]
      Q2 = hom_Q2[:3, :] / hom_Q2[3, :]
      total_sum = sum(Q2[2, :] > 0) + sum(Q1[2, :] > 0)
      relative_scale = np.mean(np.linalg.norm(Q1.T[:-1] - Q1.T[1:], axis=-1) /
                               np.linalg.norm(Q2.T[:-1] - Q2.T[1:], axis=-1))
      positives.append(total_sum + relative_scale)
  max = np.argmax(positives)
  \<close>
  and returns the pair with that index, the translation unscaled. \<open>np.argmax\<close> of doubles
  takes a NaN for the greatest value: it is the index of the first NaN if there is one, of
  the first greatest entry otherwise.
\<close>

fun np_argmax_f :: "fl list \<Rightarrow> nat" where
  "np_argmax_f [] = 0"
| "np_argmax_f [x] = 0"
| "np_argmax_f (x # xs) =
     (let j = np_argmax_f xs
      in if isnan x then 0 else if isnan (xs ! j) \<or> fgt (xs ! j) x then Suc j else 0)"

definition positive_of :: "('f, 'd) camera_poses \<Rightarrow> mat \<Rightarrow> mat \<Rightarrow> mat \<Rightarrow> vec \<Rightarrow> fl" where
  "positive_of vo q1 q2 R t =
     (let T = form_transf R t;
          P = matmul (K_zeros vo) T;
          hom_Q1 = triangulatePoints vo P P (np_T q1) (np_T q2);
          hom_Q2 = matmul T hom_Q1;
          Q1 = normalize_hom hom_Q1;
          Q2 = normalize_hom hom_Q2;
          total_sum = count_pos (Q2 ! 2) + count_pos (Q1 ! 2);
          relative_scale = relative_scale_of Q1 Q2
      in fadd (Fin (real_of_int total_sum)) relative_scale)"

definition positives_of :: "('f, 'd) camera_poses \<Rightarrow> mat \<Rightarrow> mat \<Rightarrow> mat \<Rightarrow> fl list" where
  "positives_of vo E q1 q2 =
     (let (R1, R2, t0) = decomposeEssentialMat vo E;
          t = concat t0
      in map (\<lambda>(R, t). positive_of vo q1 q2 R t) [(R1, t), (R2, t), (R1, vneg t), (R2, vneg t)])"

definition decomp_essential_mat ::
  "('f, 'd) camera_poses \<Rightarrow> mat \<Rightarrow> mat \<Rightarrow> mat \<Rightarrow> (mat \<times> vec) option" where
  "decomp_essential_mat vo E q1 q2 =
     (let (R1, R2, t0) = decomposeEssentialMat vo E;
          t = concat t0;
          mx = np_argmax_f (positives_of vo E q1 q2)
      in if mx = 2 then Some (R1, vneg t)
         else if mx = 3 then Some (R2, vneg t)
         else if mx = 0 then Some (R1, t)
         else if mx = 1 then Some (R2, t)
         else None)"

subsection \<open>\<open>get_pose\<close>\<close>

definition not_finite :: "mat \<Rightarrow> bool" where
  "not_finite M = (any_nan M \<or> any_inf M)"

definition not_finite_v :: "vec \<Rightarrow> bool" where
  "not_finite_v v = (any_nan_v v \<or> any_inf_v v)"

text \<open>
  \<^verbatim>\<open>
  E, mask = cv2.findEssentialMat(q1, q2, self.K)
  if np.any(np.isnan(E)) or np.any(np.isinf(E)):
      return np.eye(4)
  R, t = self.decomp_essential_mat_old(E, q1, q2)
  if np.any(np.isnan(R)) or np.any(np.isinf(R)):
      return np.eye(4)
  if np.any(np.isnan(t)) or np.any(np.isinf(t)):
      return np.eye(4)
  transformation_matrix = self._form_transf(R, np.squeeze(t))
  if np.any(np.isnan(transformation_matrix)) or np.any(np.isinf(transformation_matrix)):
      return np.eye(4)
  return transformation_matrix
  \<close>
  (\<open>np.squeeze\<close> leaves the vector \<open>t\<close> of three entries as it is.)
\<close>

definition get_pose ::
  "('f, 'd) camera_poses \<Rightarrow> mat \<Rightarrow> mat \<Rightarrow> mat list \<Rightarrow> mat \<times> mat list" where
  "get_pose vo q1 q2 wp =
     (let E = findEssentialMat vo q1 q2
      in if not_finite E then (eye 4, wp)
         else
           (let ((R, t), wp') = decomp_essential_mat_old vo E q1 q2 wp
            in if not_finite R then (eye 4, wp')
               else if not_finite_v t then (eye 4, wp')
               else
                 (let transformation_matrix = form_transf R t
                  in if not_finite transformation_matrix then (eye 4, wp')
                     else (transformation_matrix, wp'))))"

subsection \<open>The video loop\<close>

record 'f vo_state =
  process_frames :: bool
  old_frame :: "'f option"
  cur_pose :: mat
  world_points :: "mat list"
  camera_pose_list :: "mat list"
  estimated_path :: "(fl \<times> fl) list"
  frame_counter :: nat

text \<open>
  \<open>start_pose = np.concatenate((np.identity(3), np.zeros((3, 1))), axis=1)\<close>, and the
  variables as they are before the loop.
\<close>

definition start_pose :: mat where
  "start_pose = map2 (@) (eye 3) [[Fin 0], [Fin 0], [Fin 0]]"

definition init_state :: "'f vo_state" where
  "init_state = \<lparr> process_frames = False, old_frame = None, cur_pose = start_pose,
                  world_points = [], camera_pose_list = [], estimated_path = [],
                  frame_counter = 0 \<rparr>"

text \<open>
  \<^verbatim>\<open>
  q1, q2 = vo.get_matches(old_frame, new_frame)
  if q1 is not None:
      if len(q1) > 20 and len(q2) > 20:
          transf = vo.get_pose(q1, q2)
          cur_pose = cur_pose @ transf
  \<close>
\<close>

definition pose_update ::
  "('f, 'd) camera_poses \<Rightarrow> 'f vo_state \<Rightarrow> (mat \<times> mat) option \<Rightarrow> 'f vo_state" where
  "pose_update vo s r =
     (case r of
        None \<Rightarrow> s
      | Some (q1, q2) \<Rightarrow>
          if length q1 > 20 \<and> length q2 > 20 then
            (let (transf, wp) = get_pose vo q1 q2 (world_points s)
             in s\<lparr> cur_pose := matmul (cur_pose s) transf, world_points := wp \<rparr>)
          else s)"

text \<open>
  \<^verbatim>\<open>
  hom_array = np.array([[0,0,0,1]])
  hom_camera_pose = np.concatenate((cur_pose, hom_array), axis=0)
  camera_pose_list.append(hom_camera_pose)
  estimated_path.append((cur_pose[0, 3], cur_pose[2, 3]))
  \<close>
\<close>

definition record_pose :: "'f vo_state \<Rightarrow> 'f vo_state" where
  "record_pose s =
     s\<lparr> camera_pose_list :=
           camera_pose_list s @ [cur_pose s @ [[Fin 0, Fin 0, Fin 0, Fin 1]]],
         estimated_path :=
           estimated_path s @ [(cur_pose s ! 0 ! 3, cur_pose s ! 2 ! 3)] \<rparr>"

text \<open>
  The body of \<open>if process_frames:\<close>. OpenCV raises on the frame \<open>None\<close>; the loop
  never reaches that, since \<open>process_frames\<close> is set together with \<open>old_frame\<close>.
\<close>

definition process_pair ::
  "('f, 'd) camera_poses \<Rightarrow> 'f vo_state \<Rightarrow> 'f \<Rightarrow> py_error + 'f vo_state" where
  "process_pair vo s new_frame =
     (case old_frame s of
        None \<Rightarrow> Inl Cv2Error
      | Some old \<Rightarrow>
          (case get_matches vo old new_frame of
             Inl e \<Rightarrow> Inl e
           | Inr r \<Rightarrow> Inr (record_pose (pose_update vo s r))))"

text \<open>
  One pass of the loop body for a frame that \<open>cap.read()\<close> returned. The overlay, the
  display and the key test (\<open>cv2.putText\<close>, \<open>cv2.imshow\<close>, \<open>cv2.waitKey\<close>) do
  not touch these variables and are left out; no key is pressed.
\<close>

definition step ::
  "('f, 'd) camera_poses \<Rightarrow> 'f vo_state \<Rightarrow> 'f \<Rightarrow> py_error + 'f vo_state" where
  "step vo s new_frame =
     (let s1 = s\<lparr> frame_counter := frame_counter s + 1 \<rparr>
      in case (if process_frames s1 then process_pair vo s1 new_frame else Inr s1) of
           Inl e \<Rightarrow> Inl e
         | Inr s2 \<Rightarrow> Inr (s2\<lparr> old_frame := Some new_frame, process_frames := True \<rparr>))"

text \<open>
  The loop over the frames of the video, in order, until \<open>cap.read()\<close> has no frame
  left. An exception that nothing catches ends the program.
\<close>

fun main_loop ::
  "('f, 'd) camera_poses \<Rightarrow> 'f vo_state \<Rightarrow> 'f list \<Rightarrow> py_error + 'f vo_state" where
  "main_loop vo s [] = Inr s"
| "main_loop vo s (frame # frames) =
     (case step vo s frame of
        Inl e \<Rightarrow> Inl e
      | Inr s' \<Rightarrow> main_loop vo s' frames)"

text \<open>The number of passes in which \<open>if process_frames:\<close> was taken.\<close>

definition pairs_processed :: "'f vo_state \<Rightarrow> nat" where
  "pairs_processed s = length (camera_pose_list s)"

subsection \<open>\<open>_load_images\<close>\<close>

text \<open>\<open>xs[::k]\<close> for a positive step \<open>k\<close>: the entries at 0, k, 2k, ...\<close>

fun stride_slice :: "nat \<Rightarrow> 'a list \<Rightarrow> 'a list" where
  "stride_slice k [] = []"
| "stride_slice k (x # xs) = x # stride_slice k (drop (k - 1) xs)"

text \<open>
  \<^verbatim>\<open>
  images = []
  for path in tqdm(image_paths[::skip_frames]):
      img = cv2.imread(path)
      if img is not None:
          images.append(img)
  return images
  \<close>
  over the sorted paths of the directory; a step of 0 raises \<open>ValueError\<close>.
\<close>

definition load_images ::
  "(string \<Rightarrow> 'f option) \<Rightarrow> string list \<Rightarrow> nat \<Rightarrow> py_error + 'f list" where
  "load_images imread image_paths skip_frames =
     (if skip_frames = 0 then Inl ValueError
      else Inr (List.map_filter imread (stride_slice skip_frames image_paths)))"

subsection \<open>The claims in the words of the specification\<close>

text \<open>
  A triangulated point set is a 4 by N array of homogeneous points, one per column.
  Point \<open>i\<close> has positive depth when its Z coordinate divided by its fourth coordinate is
  strictly greater than zero.
\<close>

definition pos_depth :: "mat \<Rightarrow> nat \<Rightarrow> bool" where
  "pos_depth hom i = fgt (fdiv (hom ! 2 ! i) (hom ! 3 ! i)) (Fin 0)"

definition cheirality_count :: "mat \<Rightarrow> mat \<Rightarrow> int" where
  "cheirality_count hom_Q1 hom_Q2 =
     int (length (filter (pos_depth hom_Q1) [0..<ncols hom_Q1])) +
     int (length (filter (pos_depth hom_Q2) [0..<ncols hom_Q2]))"

text \<open>
  The distance between points \<open>i\<close> and \<open>j\<close> of a 3 by N array of points, and the mean,
  over the consecutive pairs of points, of the ratio of that distance in \<open>Q1\<close> to that
  distance in \<open>Q2\<close>.
\<close>

definition point_dist :: "mat \<Rightarrow> nat \<Rightarrow> nat \<Rightarrow> fl" where
  "point_dist Q i j =
     np_norm [fsub (Q ! 0 ! i) (Q ! 0 ! j), fsub (Q ! 1 ! i) (Q ! 1 ! j), fsub (Q ! 2 ! i) (Q ! 2 ! j)]"

definition mean_distance_ratio :: "mat \<Rightarrow> mat \<Rightarrow> fl" where
  "mean_distance_ratio Q1 Q2 =
     np_mean (map (\<lambda>i. fdiv (point_dist Q1 i (Suc i)) (point_dist Q2 i (Suc i)))
                  [0..<ncols Q1 - 1])"

text \<open>Every entry is a finite double.\<close>

definition all_double :: "mat \<Rightarrow> bool" where
  "all_double M = list_all (list_all is_double) M"

subsection \<open>Example inputs\<close>

text \<open>
  The intrinsic matrix of the script, and a camera object whose OpenCV functions return
  fixed values: the keypoints of every image, the matches of every pair, the essential
  matrix, its decomposition and the triangulated points.
\<close>

definition intrinsic :: mat where
  "intrinsic = [[Fin 800, Fin 0, Fin 320], [Fin 0, Fin 800, Fin 240], [Fin 0, Fin 0, Fin 1]]"

definition test_cam ::
  "keypoint list \<Rightarrow> dmatch list list \<Rightarrow> mat \<Rightarrow> mat \<times> mat \<times> mat \<Rightarrow> mat \<Rightarrow>
   (nat, unit) camera_poses" where
  "test_cam kps ms E dec hom =
     \<lparr> K = intrinsic,
       detectAndCompute = (\<lambda>img. (kps, ())),
       knnMatch = (\<lambda>des1 des2. ms),
       findEssentialMat = (\<lambda>q1 q2. E),
       decomposeEssentialMat = (\<lambda>E. dec),
       triangulatePoints = (\<lambda>P1 P2 x1 x2. hom) \<rparr>"

definition kp0 :: keypoint where
  "kp0 = \<lparr> pt = (Fin 0, Fin 0) \<rparr>"

text \<open>A best neighbour at distance 1 and a second neighbour at distance 4: 1 < 0.5 * 4.\<close>

definition near :: dmatch where
  "near = \<lparr> distance = Fin 1, queryIdx = 0, trainIdx = 0 \<rparr>"

definition far :: dmatch where
  "far = \<lparr> distance = Fin 4, queryIdx = 0, trainIdx = 1 \<rparr>"

definition ms21 :: "dmatch list list" where
  "ms21 = replicate 21 [near, far]"

definition q21 :: mat where
  "q21 = replicate 21 [Fin 0, Fin 0]"

text \<open>
  The essential matrix of a unit translation along X with no rotation, and its
  decomposition: the identity, the half turn about X, and the direction.
\<close>

definition E0 :: mat where
  "E0 = [[Fin 0, Fin 0, Fin 0], [Fin 0, Fin 0, Fin (- 1)], [Fin 0, Fin 1, Fin 0]]"

definition I3 :: mat where
  "I3 = [[Fin 1, Fin 0, Fin 0], [Fin 0, Fin 1, Fin 0], [Fin 0, Fin 0, Fin 1]]"

definition Rx :: mat where
  "Rx = [[Fin 1, Fin 0, Fin 0], [Fin 0, Fin (- 1), Fin 0], [Fin 0, Fin 0, Fin (- 1)]]"

definition ex :: mat where
  "ex = [[Fin 1], [Fin 0], [Fin 0]]"


text \<open>
  Twenty-one triangulated points at infinity in the direction of the optical axis
  (fourth coordinate 0), as correspondences without parallax give.
\<close>

definition hom_inf :: mat where
  "hom_inf = [replicate 21 (Fin 0), replicate 21 (Fin 0), replicate 21 (Fin 1),
              replicate 21 (Fin 0)]"

text \<open>Twenty-one points at depth 1, two units apart along X.\<close>

definition hom_line :: mat where
  "hom_line = [map (\<lambda>i. Fin (- 2 * real i)) [0..<21], replicate 21 (Fin 0),
               replicate 21 (Fin 1), replicate 21 (Fin 1)]"

text \<open>Two points at depth 1, four units apart along X.\<close>

definition hom_two :: mat where
  "hom_two = [[Fin 0, Fin 4], [Fin 0, Fin 0], [Fin 1, Fin 1], [Fin 1, Fin 1]]"

definition q_two :: mat where
  "q_two = [[Fin 0, Fin 0], [Fin 4, Fin 0]]"

text \<open>
  Cameras: six keypoints in every image; an essential matrix with a NaN entry; points at
  infinity, with the two rotations of the decomposition in either order; the points on a
  line.
\<close>

definition cam_few :: "(nat, unit) camera_poses" where
  "cam_few = test_cam (replicate 6 kp0) ms21 E0 (I3, Rx, ex) hom_line"


definition cam_inf :: "(nat, unit) camera_poses" where
  "cam_inf = test_cam (replicate 7 kp0) ms21 E0 (I3, Rx, ex) hom_inf"

definition cam_swap :: "(nat, unit) camera_poses" where
  "cam_swap = test_cam (replicate 7 kp0) ms21 E0 (Rx, I3, ex) hom_inf"

definition cam_line :: "(nat, unit) camera_poses" where
  "cam_line = test_cam (replicate 7 kp0) ms21 E0 (I3, Rx, ex) hom_line"

text \<open>
  Two points, with a decomposition whose second matrix shrinks X by four and turns Z over,
  and the translation along Z.
\<close>

definition R_skew :: mat where
  "R_skew = [[Fin (1/4), Fin 0, Fin 0], [Fin 0, Fin 1, Fin 0], [Fin 0, Fin 0, Fin (- 1)]]"

definition ez :: mat where
  "ez = [[Fin 0], [Fin 0], [Fin 1]]"

definition cam_skew :: "(nat, unit) camera_poses" where
  "cam_skew = test_cam (replicate 7 kp0) ms21 E0 (I3, R_skew, ez) hom_two"

text \<open>A decomposition whose two matrices shrink X by four, with the translation along Z.\<close>

definition R_quarter :: mat where
  "R_quarter = [[Fin (1/4), Fin 0, Fin 0], [Fin 0, Fin 1, Fin 0], [Fin 0, Fin 0, Fin 1]]"

definition cam_quarter :: "(nat, unit) camera_poses" where
  "cam_quarter = test_cam (replicate 7 kp0) ms21 E0 (R_quarter, R_quarter, ez) hom_two"

definition cam_short :: "(nat, unit) camera_poses" where
  "cam_short = test_cam (replicate 7 kp0) [[near], [near, far]] E0 (I3, Rx, ex) hom_line"

text \<open>
  The normalised points at infinity; the transform of the identity rotation with the unit
  translation along X; and a 3 by 4 array with an infinite entry.
\<close>

definition Q_inf :: mat where
  "Q_inf = [replicate 21 NaN, replicate 21 NaN, replicate 21 PInf]"

definition T_line :: mat where
  "T_line = [[Fin 1, Fin 0, Fin 0, Fin 1], [Fin 0, Fin 1, Fin 0, Fin 0],
             [Fin 0, Fin 0, Fin 1, Fin 0], [Fin 0, Fin 0, Fin 0, Fin 1]]"


text \<open>The variables after the first frame (frame 0) has gone through the loop.\<close>

definition after_first :: "nat vo_state" where
  "after_first = init_state \<lparr> frame_counter := 1, old_frame := Some 0, process_frames := True \<rparr>"

section \<open>Properties\<close>

subsection \<open>Doubles and arrays\<close>

lemma MAXF_big: "1000000 \<le> MAXF"
  by (simp add: MAXF_def)

lemma MAXF_below_OVERFLOW: "MAXF < OVERFLOW"
  by (simp add: MAXF_def OVERFLOW_def)

lemma rnd_double: "\<bar>r\<bar> \<le> MAXF \<Longrightarrow> rnd r = Fin r"
  using MAXF_below_OVERFLOW by (auto simp: rnd_def)

lemma rnd_small: "\<bar>r\<bar> \<le> 1000000 \<Longrightarrow> rnd r = Fin r"
  using MAXF_big by (intro rnd_double) simp

lemma upt2: "[0..<2] = [0, 1]"
  by (simp add: upt_rec)

lemma upt4: "[0..<4] = [0, 1, 2, 3]"
  by (simp add: upt_rec)

lemma upt21: "[0..<21] = [0, 1, 2, 3, 4, 5, 6, 7, 8, 9, 10, 11, 12, 13, 14, 15, 16, 17, 18, 19, 20]"
  by (simp add: upt_rec)

lemma eye4: "eye 4 = [[Fin 1, Fin 0, Fin 0, Fin 0], [Fin 0, Fin 1, Fin 0, Fin 0],
                       [Fin 0, Fin 0, Fin 1, Fin 0], [Fin 0, Fin 0, Fin 0, Fin 1]]"
  by (simp add: eye_def upt4)

lemma not_finite_iff: "not_finite M \<longleftrightarrow> \<not> all_finite M"
  by (auto simp: not_finite_def any_nan_def any_inf_def all_finite_def isfinite_def
      list_ex_iff list_all_iff)

lemma eye4_shape: "shape (eye 4) 4 4"
  by (simp add: shape_def eye4)

lemma eye4_finite: "all_finite (eye 4)"
  by (simp add: all_finite_def eye4 isfinite_def isnan_def isinf_def)

lemma form_transf_shape: "shape (form_transf R t) 4 4"
  by (simp add: shape_def form_transf_def upt4)

text \<open>A row of four finite doubles times the identity is the row itself.\<close>

lemma row_times_eye4:
  assumes "length r = 4" and "list_all is_double r"
  shows "map (dot r) (np_T (eye 4)) = r"
proof -
  from assms(1) obtain a b c d where r: "r = [a, b, c, d]"
    by (auto simp: length_Suc_conv eval_nat_numeral)
  from assms(2) r obtain x y z w where
    v: "a = Fin x" "b = Fin y" "c = Fin z" "d = Fin w"
    and b: "\<bar>x\<bar> \<le> MAXF" "\<bar>y\<bar> \<le> MAXF" "\<bar>z\<bar> \<le> MAXF" "\<bar>w\<bar> \<le> MAXF"
    by (cases a; cases b; cases c; cases d) auto
  have z: "rnd 0 = Fin 0"
    by (simp add: rnd_small)
  show ?thesis
    using b by (simp add: r v eye4 np_T_def ncols_def upt4 dot_def fsum_def z rnd_double)
qed

lemma matmul_eye4:
  assumes "shape P m 4" and "all_double P"
  shows "matmul P (eye 4) = P"
proof -
  have "map (\<lambda>row. map (dot row) (np_T (eye 4))) P = map (\<lambda>row. row) P"
  proof (rule map_cong [OF refl])
    fix r assume "r \<in> set P"
    with assms have "length r = 4" "list_all is_double r"
      by (auto simp: shape_def all_double_def list_all_iff)
    then show "map (dot r) (np_T (eye 4)) = r"
      by (rule row_times_eye4)
  qed
  then show ?thesis
    by (simp add: matmul_def)
qed

lemma start_pose_eq: "start_pose = [[Fin 1, Fin 0, Fin 0, Fin 0], [Fin 0, Fin 1, Fin 0, Fin 0],
                       [Fin 0, Fin 0, Fin 1, Fin 0]]"
  by (simp add: start_pose_def eye_def upt_rec)

lemma start_pose_ok: "shape start_pose 3 4 \<and> all_double start_pose"
  using MAXF_big by (simp add: start_pose_eq shape_def all_double_def)

subsection \<open>Facts about \<open>get_pose\<close>\<close>

lemma get_pose_cases:
  "fst (get_pose vo q1 q2 wp) = eye 4 \<or>
   (\<exists>R t. fst (get_pose vo q1 q2 wp) = form_transf R t \<and> \<not> not_finite (form_transf R t))"
  by (auto simp: get_pose_def Let_def split: prod.splits)

lemma get_pose_finite:
  "shape (fst (get_pose vo q1 q2 wp)) 4 4 \<and> all_finite (fst (get_pose vo q1 q2 wp))"
  using get_pose_cases [of vo q1 q2 wp]
  by (auto simp: eye4_shape eye4_finite form_transf_shape not_finite_iff)


lemma decomp_old_wp:
  "snd (decomp_essential_mat_old vo E q1 q2 wp) =
     wp @ [normalize_hom (triangulatePoints vo
             (matmul (K_zeros vo) (form_transf (fst (fst (decomp_essential_mat_old vo E q1 q2 wp)))
                                                (snd (fst (decomp_essential_mat_old vo E q1 q2 wp)))))
             (matmul (K_zeros vo) (form_transf (fst (fst (decomp_essential_mat_old vo E q1 q2 wp)))
                                                (snd (fst (decomp_essential_mat_old vo E q1 q2 wp)))))
             (np_T q1) (np_T q2))]"
  by (simp add: decomp_essential_mat_old_def Let_def)

lemma get_pose_wp:
  "\<not> not_finite (findEssentialMat vo q1 q2) \<Longrightarrow>
   snd (get_pose vo q1 q2 wp) = snd (decomp_essential_mat_old vo (findEssentialMat vo q1 q2) q1 q2 wp)"
  by (simp add: get_pose_def Let_def split: prod.splits)

lemma get_pose_degenerate:
  assumes "\<not> not_finite (findEssentialMat vo q1 q2)"
    and "decomp_essential_mat_old vo (findEssentialMat vo q1 q2) q1 q2 wp = ((R, t), wp')"
    and "not_finite R \<or> not_finite_v t \<or> not_finite (form_transf R t)"
  shows "get_pose vo q1 q2 wp = (eye 4, wp')"
  using assms by (auto simp: get_pose_def Let_def)

subsection \<open>Facts about \<open>get_matches\<close> and the loop\<close>

lemma get_matches_few:
  "length (fst (detectAndCompute vo img1)) \<le> 6 \<or> length (fst (detectAndCompute vo img2)) \<le> 6 \<Longrightarrow>
   get_matches vo img1 img2 = Inr None"
  by (auto simp: get_matches_def split: prod.splits)

lemma record_pose_keeps:
  "cur_pose (record_pose s) = cur_pose s \<and> world_points (record_pose s) = world_points s \<and>
   frame_counter (record_pose s) = frame_counter s \<and>
   pairs_processed (record_pose s) = Suc (pairs_processed s)"
  by (simp add: record_pose_def pairs_processed_def)

lemma pose_update_keeps:
  "frame_counter (pose_update vo s r) = frame_counter s \<and>
   camera_pose_list (pose_update vo s r) = camera_pose_list s"
  by (auto simp: pose_update_def Let_def split: option.splits prod.splits)

lemma step_counts:
  assumes "step vo s frame = Inr s'"
  shows "frame_counter s' = Suc (frame_counter s) \<and> process_frames s' \<and>
         old_frame s' = Some frame \<and>
         pairs_processed s' = pairs_processed s + (if process_frames s then 1 else 0)"
  using assms
  by (auto simp: step_def process_pair_def Let_def pairs_processed_def record_pose_def
      pose_update_keeps split: if_splits option.splits sum.splits)

lemma main_loop_counts:
  "main_loop vo s frames = Inr s' \<Longrightarrow>
   frame_counter s' = frame_counter s + length frames \<and>
   pairs_processed s' =
     pairs_processed s + (if process_frames s then length frames else length frames - 1)"
proof (induction frames arbitrary: s)
  case Nil
  then show ?case by simp
next
  case (Cons f fs)
  from Cons.prems obtain s1 where s1: "step vo s f = Inr s1" and rest: "main_loop vo s1 fs = Inr s'"
    by (auto split: sum.splits)
  from step_counts [OF s1] Cons.IH [OF rest] show ?case
    by auto
qed

lemma main_loop_few:
  assumes "\<And>img. length (fst (detectAndCompute vo img)) \<le> 6"
    and "process_frames s \<longrightarrow> old_frame s \<noteq> None"
  shows "\<exists>s'. main_loop vo s frames = Inr s'"
  using assms(2)
proof (induction frames arbitrary: s)
  case Nil
  then show ?case by simp
next
  case (Cons f fs)
  have "\<exists>s1. step vo s f = Inr s1"
    using Cons.prems get_matches_few [of vo _ f] assms(1)
    by (auto simp: step_def process_pair_def Let_def split: option.splits)
  then obtain s1 where s1: "step vo s f = Inr s1" ..
  from step_counts [OF s1] have "process_frames s1 \<longrightarrow> old_frame s1 \<noteq> None"
    by simp
  from Cons.IH [OF this] s1 show ?case
    by simp
qed

subsection \<open>The ratio test and the strided slice\<close>

lemma ratio_loop_pairs:
  "list_all (\<lambda>e. length e = 2) ms \<Longrightarrow>
   ratio_loop ms good =
     good @ map (\<lambda>e. e ! 0)
       (filter (\<lambda>e. flt (distance (e ! 0)) (fmul (Fin (1/2)) (distance (e ! 1)))) ms)"
  by (induction ms good rule: ratio_loop.induct) simp_all

lemma ratio_loop_short: "length e \<noteq> 2 \<Longrightarrow> ratio_loop (e # rest) good = good"
  by (cases "(e # rest, good)" rule: ratio_loop.cases) auto

lemma ratio_loop_cut:
  "list_all (\<lambda>e. length e = 2) pre \<Longrightarrow> length e \<noteq> 2 \<Longrightarrow>
   ratio_loop (pre @ e # rest) good = ratio_loop pre good"
proof (induction pre arbitrary: good)
  case Nil
  then show ?case by (simp add: ratio_loop_short)
next
  case (Cons p ps)
  then obtain m n where "p = [m, n]"
    by (auto simp: length_Suc_conv eval_nat_numeral)
  with Cons show ?case by simp
qed

lemma stride_slice_length:
  "0 < k \<Longrightarrow> length (stride_slice k xs) = (length xs + k - 1) div k"
proof (induction k xs rule: stride_slice.induct)
  case (1 k)
  then show ?case by simp
next
  case (2 k x xs)
  show ?case
  proof (cases "k - 1 \<le> length xs")
    case True
    with 2 have "length (stride_slice k (x # xs)) = Suc (length xs div k)"
      by simp
    also have "\<dots> = (length (x # xs) + k - 1) div k"
      using 2(2) by simp
    finally show ?thesis .
  next
    case False
    with 2 show ?thesis by simp
  qed
qed


subsection \<open>Facts about the disambiguator\<close>

lemma np_argmax_first_max:
  "xs \<noteq> [] \<Longrightarrow>
   np_argmax xs < length xs \<and>
   (\<forall>j<length xs. xs ! j \<le> xs ! np_argmax xs) \<and>
   (\<forall>j<np_argmax xs. xs ! j < xs ! np_argmax xs)"
proof (induction xs rule: np_argmax.induct)
  case 1
  then show ?case by simp
next
  case (2 x)
  then show ?case by simp
next
  case (3 x y ys)
  let ?xs = "y # ys"
  let ?j = "np_argmax ?xs"
  from 3 have ih: "?j < length ?xs" "\<forall>k<length ?xs. ?xs ! k \<le> ?xs ! ?j"
    "\<forall>k<?j. ?xs ! k < ?xs ! ?j"
    by simp_all
  show ?case
  proof (cases "x < ?xs ! ?j")
    case True
    then have a: "np_argmax (x # ?xs) = Suc ?j"
      by (simp add: Let_def)
    have "\<forall>k<length (x # ?xs). (x # ?xs) ! k \<le> ?xs ! ?j"
      using ih(2) True by (auto simp: nth_Cons split: nat.splits)
    moreover have "\<forall>k<Suc ?j. (x # ?xs) ! k < ?xs ! ?j"
      using ih(3) True by (auto simp: nth_Cons split: nat.splits)
    ultimately show ?thesis
      using ih(1) a by simp
  next
    case False
    then have a: "np_argmax (x # ?xs) = 0"
      by (simp add: Let_def)
    have "\<forall>k<length (x # ?xs). (x # ?xs) ! k \<le> x"
    proof (intro allI impI)
      fix k assume "k < length (x # ?xs)"
      then show "(x # ?xs) ! k \<le> x"
        using ih(2) False by (cases k) (auto intro: order_trans)
    qed
    then show ?thesis
      using a by simp
  qed
qed

lemma pairs_of_eq:
  "decomposeEssentialMat vo E = (R1, R2, t0) \<Longrightarrow>
   pairs_of vo E = [(R1, squeeze t0), (R1, vneg (squeeze t0)), (R2, squeeze t0), (R2, vneg (squeeze t0))]"
  by (simp add: pairs_of_def Let_def)

lemma length_pairs_of: "length (pairs_of vo E) = 4"
  by (cases "decomposeEssentialMat vo E") (simp add: pairs_of_eq)

lemma length_z_sums_of: "length (z_sums_of vo E q1 q2) = 4"
  by (simp add: z_sums_of_def length_pairs_of)

lemma z_sums_nth:
  "j < 4 \<Longrightarrow> z_sums_of vo E q1 q2 ! j =
     fst (sum_z_cal_relative_scale vo q1 q2 (fst (pairs_of vo E ! j)) (snd (pairs_of vo E ! j)))"
  by (simp add: z_sums_of_def length_pairs_of case_prod_beta)

lemma relative_scales_nth:
  "j < 4 \<Longrightarrow> relative_scales_of vo E q1 q2 ! j =
     snd (sum_z_cal_relative_scale vo q1 q2 (fst (pairs_of vo E ! j)) (snd (pairs_of vo E ! j)))"
  by (simp add: relative_scales_of_def length_pairs_of case_prod_beta)

lemma right_pair_idx_first_max:
  "right_pair_idx vo E q1 q2 < 4 \<and>
   (\<forall>j<4. z_sums_of vo E q1 q2 ! j \<le> z_sums_of vo E q1 q2 ! right_pair_idx vo E q1 q2) \<and>
   (\<forall>j<right_pair_idx vo E q1 q2.
       z_sums_of vo E q1 q2 ! j < z_sums_of vo E q1 q2 ! right_pair_idx vo E q1 q2)"
proof -
  have "z_sums_of vo E q1 q2 \<noteq> []"
    using length_z_sums_of [of vo E q1 q2] by auto
  from np_argmax_first_max [OF this] show ?thesis
    by (simp add: right_pair_idx_def length_z_sums_of)
qed

lemma decomp_old_result:
  "fst (decomp_essential_mat_old vo E q1 q2 wp) =
     (fst (pairs_of vo E ! right_pair_idx vo E q1 q2),
      vscale (snd (pairs_of vo E ! right_pair_idx vo E q1 q2))
             (relative_scales_of vo E q1 q2 ! right_pair_idx vo E q1 q2))"
  by (simp add: decomp_essential_mat_old_def Let_def)

subsection \<open>Arrays of points\<close>

lemma map2_nth:
  "length xs = n \<Longrightarrow> length ys = n \<Longrightarrow> map2 f xs ys = map (\<lambda>i. f (xs ! i) (ys ! i)) [0..<n]"
  by (auto intro!: nth_equalityI)

lemma shape_rows: "shape M m n \<Longrightarrow> k < m \<Longrightarrow> length (M ! k) = n"
  by (auto simp: shape_def list_all_iff)

lemma shape_ncols: "shape M m n \<Longrightarrow> 0 < m \<Longrightarrow> ncols M = n"
  by (cases M) (auto simp: shape_def ncols_def)

lemma shape_matmul: "shape A m k \<Longrightarrow> shape (matmul A B) m (ncols B)"
  by (simp add: shape_def matmul_def np_T_def list_all_iff)

lemma normalize_hom_rows:
  assumes "shape hom 4 n" and "k < 3"
  shows "normalize_hom hom ! k = map (\<lambda>i. fdiv (hom ! k ! i) (hom ! 3 ! i)) [0..<n]"
proof -
  have l: "length hom = 4" using assms(1) by (simp add: shape_def)
  have "normalize_hom hom ! k = map2 fdiv (hom ! k) (hom ! 3)"
    using l assms(2) by (simp add: normalize_hom_def)
  also have "\<dots> = map (\<lambda>i. fdiv (hom ! k ! i) (hom ! 3 ! i)) [0..<n]"
    using assms by (intro map2_nth shape_rows [OF assms(1)]) simp_all
  finally show ?thesis .
qed

lemma normalize_hom_shape: "shape hom 4 n \<Longrightarrow> shape (normalize_hom hom) 3 n"
  by (auto simp: shape_def normalize_hom_def list_all_iff dest!: in_set_takeD)

lemma count_pos_depth:
  assumes "shape hom 4 n"
  shows "count_pos (normalize_hom hom ! 2) = int (length (filter (pos_depth hom) [0..<ncols hom]))"
proof -
  have "ncols hom = n"
    using assms by (rule shape_ncols) simp
  moreover have "filter (\<lambda>z. fgt z (Fin 0)) (map (\<lambda>i. fdiv (hom ! 2 ! i) (hom ! 3 ! i)) [0..<n])
      = map (\<lambda>i. fdiv (hom ! 2 ! i) (hom ! 3 ! i)) (filter (pos_depth hom) [0..<n])"
    by (simp add: filter_map comp_def pos_depth_def [abs_def])
  ultimately show ?thesis
    using normalize_hom_rows [OF assms, of 2] by (simp add: count_pos_def)
qed

lemma np_T_consecutive:
  "map2 g (butlast (np_T Q)) (tl (np_T Q)) =
     map (\<lambda>i. g (map (\<lambda>r. r ! i) Q) (map (\<lambda>r. r ! Suc i) Q)) [0..<ncols Q - 1]"
proof -
  let ?f = "\<lambda>j. map (\<lambda>r. r ! j) Q"
  let ?n = "ncols Q"
  have "butlast [0..<?n] = [0..<?n - 1]"
    by (simp add: butlast_conv_take)
  then have b: "butlast (np_T Q) = map ?f [0..<?n - 1]"
    by (simp add: np_T_def map_butlast [symmetric])
  have u: "[Suc 0..<?n] = map Suc [0..<?n - 1]"
    by (cases ?n) (simp_all add: map_Suc_upt)
  have "tl (np_T Q) = map ?f [Suc 0..<?n]"
    by (simp add: np_T_def map_tl [symmetric])
  then have t: "tl (np_T Q) = map (\<lambda>i. ?f (Suc i)) [0..<?n - 1]"
    by (simp add: u comp_def)
  show ?thesis
    unfolding b t by (simp add: zip_map_map zip_same_conv_map comp_def)
qed

lemma succ_dists_points:
  "length Q = 3 \<Longrightarrow> succ_dists Q = map (\<lambda>i. point_dist Q i (Suc i)) [0..<ncols Q - 1]"
proof -
  assume "length Q = 3"
  then obtain a b c where Q: "Q = [a, b, c]"
    by (auto simp: length_Suc_conv eval_nat_numeral)
  show ?thesis
    by (simp add: succ_dists_def np_T_consecutive point_dist_def) (simp add: Q)
qed

lemma relative_scale_refines:
  assumes "length Q1 = 3" and "length Q2 = 3" and "ncols Q1 = ncols Q2"
  shows "relative_scale_of Q1 Q2 = mean_distance_ratio Q1 Q2"
  using assms
  by (simp add: relative_scale_of_def mean_distance_ratio_def succ_dists_points
      zip_map_map zip_same_conv_map comp_def)



subsection \<open>The example cameras\<close>

lemma sqrt_16: "sqrt 16 = 4"
  by (rule real_sqrt_unique) simp_all

lemma rep20: "replicate 20 x = [x, x, x, x, x, x, x, x, x, x, x, x, x, x, x, x, x, x, x, x]"
  by (simp add: eval_nat_numeral)

lemma rep21: "replicate 21 x = [x, x, x, x, x, x, x, x, x, x, x, x, x, x, x, x, x, x, x, x, x]"
  by (simp add: eval_nat_numeral)

lemmas arr_defs = matmul_def form_transf_def np_T_def ncols_def dot_def fsum_def
  normalize_hom_def count_pos_def succ_dists_def np_norm_def np_mean_def relative_scale_of_def
  fsub_def upt4 upt21 upt2 rep20 rep21 rnd_small

lemma szc_test:
  "sum_z_cal_relative_scale (test_cam kps ms E dec hom) q1 q2 R t =
     (count_pos (normalize_hom hom ! 2) +
      count_pos (normalize_hom (matmul (form_transf R t) hom) ! 2),
      relative_scale_of (normalize_hom hom) (normalize_hom (matmul (form_transf R t) hom)))"
  by (simp add: sum_z_cal_relative_scale_def tri_old_def test_cam_def Let_def)

text \<open>Points at infinity.\<close>

lemma pairs_inf:
  "pairs_of cam_inf E =
     [(I3, [Fin 1, Fin 0, Fin 0]), (I3, [Fin (- 1), Fin 0, Fin 0]),
      (Rx, [Fin 1, Fin 0, Fin 0]), (Rx, [Fin (- 1), Fin 0, Fin 0])]"
  by (simp add: pairs_of_def cam_inf_def test_cam_def squeeze_def vneg_def ex_def Let_def)

lemma szc_inf_0: "sum_z_cal_relative_scale cam_inf q q' I3 [Fin 1, Fin 0, Fin 0] = (42, NaN)"
  by (simp add: cam_inf_def szc_test I3_def hom_inf_def arr_defs)

lemma szc_inf_1: "sum_z_cal_relative_scale cam_inf q q' I3 [Fin (- 1), Fin 0, Fin 0] = (42, NaN)"
  by (simp add: cam_inf_def szc_test I3_def hom_inf_def arr_defs)

lemma szc_inf_2: "sum_z_cal_relative_scale cam_inf q q' Rx [Fin 1, Fin 0, Fin 0] = (21, NaN)"
  by (simp add: cam_inf_def szc_test Rx_def hom_inf_def arr_defs)

lemma szc_inf_3: "sum_z_cal_relative_scale cam_inf q q' Rx [Fin (- 1), Fin 0, Fin 0] = (21, NaN)"
  by (simp add: cam_inf_def szc_test Rx_def hom_inf_def arr_defs)

lemmas szc_inf = szc_inf_0 szc_inf_1 szc_inf_2 szc_inf_3

lemma idx_inf: "right_pair_idx cam_inf E q q' = 0"
  by (simp add: right_pair_idx_def z_sums_of_def pairs_inf szc_inf)

lemma dec_inf:
  "decomp_essential_mat_old cam_inf E q q' wp = ((I3, [NaN, NaN, NaN]), wp @ [Q_inf])"
  by (simp add: decomp_essential_mat_old_def pairs_inf idx_inf relative_scales_of_def szc_inf
      vscale_def Let_def)
     (simp add: cam_inf_def test_cam_def hom_inf_def normalize_hom_def Q_inf_def rep21)

lemma E0_finite: "\<not> not_finite E0"
  by (simp add: E0_def not_finite_def any_nan_def any_inf_def isnan_def isinf_def)

lemma I3_finite: "\<not> not_finite I3"
  by (simp add: I3_def not_finite_def any_nan_def any_inf_def isnan_def isinf_def)

lemma gp_inf: "get_pose cam_inf q q' wp = (eye 4, wp @ [Q_inf])"
proof -
  have "findEssentialMat cam_inf q q' = E0"
    by (simp add: cam_inf_def test_cam_def)
  then show ?thesis
    by (simp add: get_pose_def Let_def dec_inf E0_finite I3_finite not_finite_v_def
        any_nan_v_def isnan_def)
qed

text \<open>Two points at depth 1 and the translation against Z.\<close>

lemma szc_skew_1: "sum_z_cal_relative_scale cam_skew q q' I3 [Fin 0, Fin 0, Fin (- 1)] = (2, Fin 1)"
  by (simp add: cam_skew_def szc_test I3_def hom_two_def arr_defs sqrt_16)

text \<open>Points at infinity, the half turn first in the decomposition.\<close>

lemma pairs_swap:
  "pairs_of cam_swap E =
     [(Rx, [Fin 1, Fin 0, Fin 0]), (Rx, [Fin (- 1), Fin 0, Fin 0]),
      (I3, [Fin 1, Fin 0, Fin 0]), (I3, [Fin (- 1), Fin 0, Fin 0])]"
  by (simp add: pairs_of_def cam_swap_def test_cam_def squeeze_def vneg_def ex_def Let_def)

lemma szc_swap_0: "sum_z_cal_relative_scale cam_swap q q' Rx [Fin 1, Fin 0, Fin 0] = (21, NaN)"
  by (simp add: cam_swap_def szc_test Rx_def hom_inf_def arr_defs)

lemma szc_swap_1: "sum_z_cal_relative_scale cam_swap q q' Rx [Fin (- 1), Fin 0, Fin 0] = (21, NaN)"
  by (simp add: cam_swap_def szc_test Rx_def hom_inf_def arr_defs)

lemma szc_swap_2: "sum_z_cal_relative_scale cam_swap q q' I3 [Fin 1, Fin 0, Fin 0] = (42, NaN)"
  by (simp add: cam_swap_def szc_test I3_def hom_inf_def arr_defs)

lemma szc_swap_3: "sum_z_cal_relative_scale cam_swap q q' I3 [Fin (- 1), Fin 0, Fin 0] = (42, NaN)"
  by (simp add: cam_swap_def szc_test I3_def hom_inf_def arr_defs)

lemmas szc_swap = szc_swap_0 szc_swap_1 szc_swap_2 szc_swap_3

lemma zs_swap: "z_sums_of cam_swap E q q' = [21, 21, 42, 42]"
  by (simp add: z_sums_of_def pairs_swap szc_swap)

lemma rs_swap: "relative_scales_of cam_swap E q q' = [NaN, NaN, NaN, NaN]"
  by (simp add: relative_scales_of_def pairs_swap szc_swap)

lemma idx_swap: "right_pair_idx cam_swap E q q' = 2"
  by (simp add: right_pair_idx_def zs_swap)

lemma dec_swap:
  "fst (decomp_essential_mat_old cam_swap E q q' wp) = (I3, [NaN, NaN, NaN])"
  by (simp add: decomp_old_result pairs_swap idx_swap rs_swap vscale_def)

text \<open>The points on a line.\<close>

lemma pairs_line:
  "pairs_of cam_line E =
     [(I3, [Fin 1, Fin 0, Fin 0]), (I3, [Fin (- 1), Fin 0, Fin 0]),
      (Rx, [Fin 1, Fin 0, Fin 0]), (Rx, [Fin (- 1), Fin 0, Fin 0])]"
  by (simp add: pairs_of_def cam_line_def test_cam_def squeeze_def vneg_def ex_def Let_def)

lemma szc_line_0: "sum_z_cal_relative_scale cam_line q q' I3 [Fin 1, Fin 0, Fin 0] = (42, Fin 1)"
  by (simp add: cam_line_def szc_test I3_def hom_line_def arr_defs)

lemma szc_line_1: "sum_z_cal_relative_scale cam_line q q' I3 [Fin (- 1), Fin 0, Fin 0] = (42, Fin 1)"
  by (simp add: cam_line_def szc_test I3_def hom_line_def arr_defs)

lemma szc_line_2: "sum_z_cal_relative_scale cam_line q q' Rx [Fin 1, Fin 0, Fin 0] = (21, Fin 1)"
  by (simp add: cam_line_def szc_test Rx_def hom_line_def arr_defs)

lemma szc_line_3: "sum_z_cal_relative_scale cam_line q q' Rx [Fin (- 1), Fin 0, Fin 0] = (21, Fin 1)"
  by (simp add: cam_line_def szc_test Rx_def hom_line_def arr_defs)

lemmas szc_line = szc_line_0 szc_line_1 szc_line_2 szc_line_3

lemma zs_line: "z_sums_of cam_line E q q' = [42, 42, 21, 21]"
  by (simp add: z_sums_of_def pairs_line szc_line)

lemma idx_line: "right_pair_idx cam_line E q q' = 0"
  by (simp add: right_pair_idx_def zs_line)

lemma dec_line:
  "fst (decomp_essential_mat_old cam_line E q q' wp) = (I3, [Fin 1, Fin 0, Fin 0])"
  by (simp add: decomp_old_result pairs_line idx_line relative_scales_of_def szc_line vscale_def
      rnd_small)

lemma gp_line: "fst (get_pose cam_line q q' wp) = T_line"
proof -
  have e: "findEssentialMat cam_line q q' = E0"
    by (simp add: cam_line_def test_cam_def)
  have t: "form_transf I3 [Fin 1, Fin 0, Fin 0] = T_line"
    by (simp add: form_transf_def I3_def T_line_def upt4)
  have f: "\<not> not_finite T_line"
    by (simp add: T_line_def not_finite_def any_nan_def any_inf_def isnan_def isinf_def)
  obtain wp' where d:
    "decomp_essential_mat_old cam_line E0 q q' wp = ((I3, [Fin 1, Fin 0, Fin 0]), wp')"
    using dec_line [of E0 q q' wp] by (cases "decomp_essential_mat_old cam_line E0 q q' wp") auto
  show ?thesis
    by (simp add: get_pose_def Let_def e d E0_finite I3_finite t f not_finite_v_def
        any_nan_v_def any_inf_v_def isnan_def isinf_def)
qed

lemma rep7: "replicate 7 x = [x, x, x, x, x, x, x]"
  by (simp add: eval_nat_numeral)
lemma ratio_ms21: "ratio_loop ms21 [] = replicate 21 near"
  by (simp add: ms21_def rep21 near_def far_def flt_def rnd_small)
lemma points_of_near:
  "points_of (replicate 7 kp0) idx (replicate 21 near) = Inr q21" if "idx near = 0"
  using that by (simp add: rep21 rep7 py_get_def kp0_def q21_def)
lemma near_idx: "queryIdx near = 0" "trainIdx near = 0"
  by (simp_all add: near_def)
lemma gm_test:
  "get_matches (test_cam (replicate 7 kp0) ms21 E dec hom) a b = Inr (Some (q21, q21))"
  by (simp add: get_matches_def test_cam_def ratio_ms21 points_of_near near_idx Let_def)

lemma gm_inf: "get_matches cam_inf a b = Inr (Some (q21, q21))"
  by (simp add: cam_inf_def gm_test)

lemma q21_long: "20 < length q21"
  by (simp add: q21_def)

lemma pose_update_long:
  "20 < length q1 \<Longrightarrow> 20 < length q2 \<Longrightarrow>
   cur_pose (pose_update vo s (Some (q1, q2))) =
     matmul (cur_pose s) (fst (get_pose vo q1 q2 (world_points s))) \<and>
   world_points (pose_update vo s (Some (q1, q2))) = snd (get_pose vo q1 q2 (world_points s))"
  by (simp add: pose_update_def Let_def split: prod.splits)

lemma step_pair:
  assumes "process_frames s" and "old_frame s = Some a"
    and "get_matches vo a b = Inr (Some (q1, q2))"
    and "20 < length q1" and "20 < length q2"
  shows "\<exists>s'. step vo s b = Inr s' \<and> process_frames s' \<and> old_frame s' = Some b \<and>
           cur_pose s' = matmul (cur_pose s) (fst (get_pose vo q1 q2 (world_points s))) \<and>
           world_points s' = snd (get_pose vo q1 q2 (world_points s))"
  using assms pose_update_long [OF assms(4,5), of vo "s\<lparr>frame_counter := frame_counter s + 1\<rparr>"]
  by (simp add: step_def process_pair_def record_pose_def Let_def)

lemma step_first: "step vo init_state (0::nat) = Inr after_first"
  by (simp add: step_def init_state_def after_first_def)

lemma after_first_fields:
  "process_frames after_first" "old_frame after_first = Some 0"
  "cur_pose after_first = start_pose" "world_points after_first = []"
  by (simp_all add: after_first_def init_state_def)

text \<open>Two frames at the camera whose points are at infinity.\<close>

lemma run_inf:
  "map_sum id cur_pose (main_loop cam_inf init_state [0, 1]) = Inr start_pose \<and>
   map_sum id world_points (main_loop cam_inf init_state [0, 1]) = Inr [Q_inf]"
proof -
  from step_pair [OF after_first_fields(1,2) gm_inf q21_long q21_long]
  obtain s where s: "step cam_inf after_first 1 = Inr s"
    "cur_pose s = matmul start_pose (eye 4)" "world_points s = [Q_inf]"
    by (auto simp: after_first_fields gp_inf)
  have "matmul start_pose (eye 4) = start_pose"
    using start_pose_ok by (intro matmul_eye4) auto
  with s show ?thesis
    by (simp add: step_first)
qed

text \<open>The quartered decomposition.\<close>

lemma pairs_quarter:
  "pairs_of cam_quarter E =
     [(R_quarter, [Fin 0, Fin 0, Fin 1]), (R_quarter, [Fin 0, Fin 0, Fin (- 1)]),
      (R_quarter, [Fin 0, Fin 0, Fin 1]), (R_quarter, [Fin 0, Fin 0, Fin (- 1)])]"
  by (simp add: pairs_of_def cam_quarter_def test_cam_def squeeze_def vneg_def ez_def Let_def)

lemma szc_quarter_0:
  "sum_z_cal_relative_scale cam_quarter q q' R_quarter [Fin 0, Fin 0, Fin 1] = (4, Fin 4)"
  by (simp add: cam_quarter_def szc_test R_quarter_def hom_two_def arr_defs sqrt_16)

lemma szc_quarter_1:
  "sum_z_cal_relative_scale cam_quarter q q' R_quarter [Fin 0, Fin 0, Fin (- 1)] = (2, Fin 4)"
  by (simp add: cam_quarter_def szc_test R_quarter_def hom_two_def arr_defs sqrt_16)

lemma idx_quarter: "right_pair_idx cam_quarter E q q' = 0"
  by (simp add: right_pair_idx_def z_sums_of_def pairs_quarter szc_quarter_0 szc_quarter_1)

lemma tri_old_test: "tri_old (test_cam kps ms E dec hom) q1 q2 R t = hom"
  by (simp add: tri_old_def test_cam_def)

lemma hom_two_shape: "shape hom_two 4 2"
  by (simp add: shape_def hom_two_def)

text \<open>The function that compares the sums.\<close>

lemma fgt_irrefl: "\<not> fgt a a"
  by (cases a) simp_all

lemma fgt_asym: "fgt a b \<Longrightarrow> \<not> fgt b a"
  by (cases a; cases b) simp_all

lemma not_fgt_trans:
  "\<not> isnan a \<Longrightarrow> \<not> isnan b \<Longrightarrow> \<not> isnan c \<Longrightarrow> \<not> fgt a b \<Longrightarrow> \<not> fgt b c \<Longrightarrow> \<not> fgt a c"
  by (cases a; cases b; cases c) (simp_all add: isnan_def)

lemma np_argmax_f_first_max:
  "xs \<noteq> [] \<Longrightarrow> list_all (\<lambda>x. \<not> isnan x) xs \<Longrightarrow>
   np_argmax_f xs < length xs \<and>
   (\<forall>j<length xs. \<not> fgt (xs ! j) (xs ! np_argmax_f xs)) \<and>
   (\<forall>j<np_argmax_f xs. fgt (xs ! np_argmax_f xs) (xs ! j))"
proof (induction xs rule: np_argmax_f.induct)
  case 1
  then show ?case by simp
next
  case (2 x)
  then show ?case by (simp add: fgt_irrefl)
next
  case (3 x y ys)
  let ?xs = "y # ys"
  let ?j = "np_argmax_f ?xs"
  from 3 have ih: "?j < length ?xs" "\<forall>k<length ?xs. \<not> fgt (?xs ! k) (?xs ! ?j)"
    "\<forall>k<?j. fgt (?xs ! ?j) (?xs ! k)"
    by simp_all
  from "3.prems" have "\<not> isnan x" and "list_all (\<lambda>x. \<not> isnan x) ?xs"
    by simp_all
  then have nn: "\<not> isnan x" "\<forall>k<length ?xs. \<not> isnan (?xs ! k)"
    by (simp_all add: list_all_length)
  show ?case
  proof (cases "fgt (?xs ! ?j) x")
    case True
    then have a: "np_argmax_f (x # ?xs) = Suc ?j"
      using nn by (simp add: Let_def)
    have "\<forall>k<length (x # ?xs). \<not> fgt ((x # ?xs) ! k) (?xs ! ?j)"
      using ih(2) fgt_asym [OF True] by (auto simp: nth_Cons split: nat.splits)
    moreover have "\<forall>k<Suc ?j. fgt (?xs ! ?j) ((x # ?xs) ! k)"
      using ih(3) True by (auto simp: nth_Cons split: nat.splits)
    ultimately show ?thesis
      using ih(1) a by simp
  next
    case False
    then have a: "np_argmax_f (x # ?xs) = 0"
      using nn ih(1) by (simp add: Let_def)
    have "\<forall>k<length (x # ?xs). \<not> fgt ((x # ?xs) ! k) x"
    proof (intro allI impI)
      fix k assume k: "k < length (x # ?xs)"
      show "\<not> fgt ((x # ?xs) ! k) x"
      proof (cases k)
        case 0
        then show ?thesis by (simp add: fgt_irrefl)
      next
        case (Suc k')
        with k have k': "k' < length ?xs" by simp
        have "\<not> fgt (?xs ! k') x"
          by (rule not_fgt_trans [OF nn(2) [rule_format, OF k'] nn(2) [rule_format, OF ih(1)]
                nn(1) ih(2) [rule_format, OF k'] False])
        with Suc show ?thesis by simp
      qed
    qed
    then show ?thesis
      using a by simp
  qed
qed

lemma positive_test:
  "positive_of (test_cam kps ms E dec hom) q1 q2 R t =
     fadd (Fin (real_of_int (fst (sum_z_cal_relative_scale (test_cam kps ms E dec hom) q1 q2 R t))))
          (snd (sum_z_cal_relative_scale (test_cam kps ms E dec hom) q1 q2 R t))"
  by (simp add: positive_of_def sum_z_cal_relative_scale_def tri_old_def test_cam_def Let_def
      add.commute)

lemma swap_dec: "decomposeEssentialMat cam_swap E = (Rx, I3, ex)"
  by (simp add: cam_swap_def test_cam_def)

lemma positives_swap: "positives_of cam_swap E q q' = [NaN, NaN, NaN, NaN]"
proof -
  have p: "positive_of cam_swap q q' R t =
     fadd (Fin (real_of_int (fst (sum_z_cal_relative_scale cam_swap q q' R t))))
          (snd (sum_z_cal_relative_scale cam_swap q q' R t))" for R t
    unfolding cam_swap_def by (rule positive_test)
  show ?thesis
    by (simp add: positives_of_def swap_dec ex_def Let_def vneg_def p szc_swap)
qed

lemma new_swap: "decomp_essential_mat cam_swap E q q' = Some (Rx, [Fin 1, Fin 0, Fin 0])"
  by (simp add: decomp_essential_mat_def positives_swap isnan_def swap_dec ex_def)

subsection \<open>C1: which candidate is selected\<close>

text \<open>
  \<open>decomp_essential_mat\<close>, the function nothing calls, returns the candidate at the
  \<open>np.argmax\<close> of the sums; where no sum is NaN that is the first greatest sum.
\<close>

lemma decomp_essential_mat_selects:
  assumes "decomposeEssentialMat vo E = (R1, R2, t0)"
    and "list_all (\<lambda>x. \<not> isnan x) (positives_of vo E q1 q2)"
  shows "decomp_essential_mat vo E q1 q2 =
           Some ([(R1, concat t0), (R2, concat t0), (R1, vneg (concat t0)), (R2, vneg (concat t0))]
                   ! np_argmax_f (positives_of vo E q1 q2))"
proof -
  have l: "length (positives_of vo E q1 q2) = 4"
    using assms(1) by (simp add: positives_of_def Let_def)
  then have "positives_of vo E q1 q2 \<noteq> []"
    by auto
  from np_argmax_f_first_max [OF this assms(2)] l
  have "np_argmax_f (positives_of vo E q1 q2) < 4"
    by simp
  then have "np_argmax_f (positives_of vo E q1 q2) \<in> {0, 1, 2, 3}"
    by auto
  then show ?thesis
    using assms(1) by (auto simp: decomp_essential_mat_def)
qed

text \<open>
  C1 (amended). Of the four candidates \<open>(R1, t)\<close>, \<open>(R1, -t)\<close>, \<open>(R2, t)\<close>,
  \<open>(R2, -t)\<close>, in this order, \<open>decomp_essential_mat_old\<close>, the disambiguator that
  \<open>get_pose\<close> calls, selects the one with the greatest cheirality count, the first of
  them where several have it: no candidate has a greater count than the selected one, and
  every earlier candidate has a smaller one. The relative scale is not part of what is
  compared. What is returned is the rotation of the selected candidate with its signed
  translation, scaled by the relative scale of that candidate.
\<close>

theorem C1_old_selects_first_greatest_count:
  assumes "decomposeEssentialMat vo E = (R1, R2, t0)"
  shows "pairs_of vo E = [(R1, squeeze t0), (R1, vneg (squeeze t0)),
                           (R2, squeeze t0), (R2, vneg (squeeze t0))] \<and>
         right_pair_idx vo E q1 q2 < 4 \<and>
         (\<forall>j<4. z_sums_of vo E q1 q2 ! j =
            fst (sum_z_cal_relative_scale vo q1 q2 (fst (pairs_of vo E ! j))
                   (snd (pairs_of vo E ! j)))) \<and>
         (\<forall>j<4. z_sums_of vo E q1 q2 ! j
                    \<le> z_sums_of vo E q1 q2 ! right_pair_idx vo E q1 q2) \<and>
         (\<forall>j<right_pair_idx vo E q1 q2.
             z_sums_of vo E q1 q2 ! j < z_sums_of vo E q1 q2 ! right_pair_idx vo E q1 q2) \<and>
         fst (decomp_essential_mat_old vo E q1 q2 wp)
           = (fst (pairs_of vo E ! right_pair_idx vo E q1 q2),
              vscale (snd (pairs_of vo E ! right_pair_idx vo E q1 q2))
                     (relative_scales_of vo E q1 q2 ! right_pair_idx vo E q1 q2))"
proof -
  have p: "pairs_of vo E = [(R1, squeeze t0), (R1, vneg (squeeze t0)),
                             (R2, squeeze t0), (R2, vneg (squeeze t0))]"
    using assms by (rule pairs_of_eq)
  have i: "right_pair_idx vo E q1 q2 < 4"
    and m: "\<forall>j<4. z_sums_of vo E q1 q2 ! j
                    \<le> z_sums_of vo E q1 q2 ! right_pair_idx vo E q1 q2"
    and f: "\<forall>j<right_pair_idx vo E q1 q2.
             z_sums_of vo E q1 q2 ! j < z_sums_of vo E q1 q2 ! right_pair_idx vo E q1 q2"
    using right_pair_idx_first_max [of vo E q1 q2] by blast+
  have z: "\<forall>j<4. z_sums_of vo E q1 q2 ! j =
            fst (sum_z_cal_relative_scale vo q1 q2 (fst (pairs_of vo E ! j))
                   (snd (pairs_of vo E ! j)))"
    using z_sums_nth by blast
  have d: "fst (decomp_essential_mat_old vo E q1 q2 wp)
           = (fst (pairs_of vo E ! right_pair_idx vo E q1 q2),
              vscale (snd (pairs_of vo E ! right_pair_idx vo E q1 q2))
                     (relative_scales_of vo E q1 q2 ! right_pair_idx vo E q1 q2))"
    by (rule decomp_old_result)
  show ?thesis
    by (intro conjI) (fact p i z m f d)+
qed

text \<open>
  The essential matrix of a unit translation along X, decomposed into the half turn about
  X, the identity and the direction, with 21 triangulated points at infinity. The counts
  are 21, 21, 42, 42: the third candidate, the identity with \<open>t\<close>, is selected.
\<close>

theorem C1_witness:
  "decomposeEssentialMat cam_swap E0 = (Rx, I3, ex) \<and>
   z_sums_of cam_swap E0 q21 q21 = [21, 21, 42, 42] \<and>
   right_pair_idx cam_swap E0 q21 q21 = 2 \<and>
   pairs_of cam_swap E0 ! 2 = (I3, squeeze ex) \<and>
   fst (decomp_essential_mat_old cam_swap E0 q21 q21 [])
     = (I3, vscale (squeeze ex) (relative_scales_of cam_swap E0 q21 q21 ! 2))"
proof -
  have d: "decomposeEssentialMat cam_swap E0 = (Rx, I3, ex)"
    by (rule swap_dec)
  from C1_old_selects_first_greatest_count [OF d, of q21 q21 "[]"] d show ?thesis
    by (simp add: zs_swap idx_swap)
qed

text \<open>
  The claim as stated, with the sums compared and the first greatest sum winning, fails on
  the same input. Every relative scale is NaN there, so every sum of count and scale is NaN:
  the four sums tie, and \<open>np.argmax\<close> of the sums is the first candidate, the half turn
  with \<open>t\<close>, which is what \<open>decomp_essential_mat\<close> returns. The disambiguator that
  \<open>get_pose\<close> calls selects the third candidate, the identity with \<open>t\<close>, whose count
  is the greatest.
\<close>

theorem C1_counterexample:
  "decomposeEssentialMat cam_swap E0 = (Rx, I3, ex) \<and>
   z_sums_of cam_swap E0 q21 q21 = [21, 21, 42, 42] \<and>
   relative_scales_of cam_swap E0 q21 q21 = [NaN, NaN, NaN, NaN] \<and>
   map2 (\<lambda>z s. fadd (Fin (real_of_int z)) s)
        (z_sums_of cam_swap E0 q21 q21) (relative_scales_of cam_swap E0 q21 q21)
     = [NaN, NaN, NaN, NaN] \<and>
   np_argmax_f (map2 (\<lambda>z s. fadd (Fin (real_of_int z)) s)
        (z_sums_of cam_swap E0 q21 q21) (relative_scales_of cam_swap E0 q21 q21)) = 0 \<and>
   right_pair_idx cam_swap E0 q21 q21 = 2 \<and>
   fst (fst (decomp_essential_mat_old cam_swap E0 q21 q21 [])) = I3 \<and>
   decomp_essential_mat cam_swap E0 q21 q21 = Some (Rx, [Fin 1, Fin 0, Fin 0]) \<and>
   I3 \<noteq> Rx"
  by (simp add: swap_dec zs_swap rs_swap idx_swap dec_swap new_swap isnan_def I3_def Rx_def)

subsection \<open>C2: a degenerate decomposition\<close>

text \<open>
  C2 (amended). For a frame pair with more than 20 correspondences whose essential matrix is
  finite and whose decomposed rotation, scaled translation or final transform has a
  non-finite entry, \<open>get_pose\<close> returns the identity, and the Cumulative Pose, a 3 by 4
  array of finite doubles, keeps its value. The point set that
  \<open>decomp_essential_mat_old\<close> triangulated for the pair is in \<open>world_points\<close> all the
  same: the list is longer by exactly one entry, appended before the test.
\<close>

theorem C2_degenerate_pair_keeps_pose_and_logs_points:
  assumes "\<not> not_finite (findEssentialMat vo q1 q2)"
    and "decomp_essential_mat_old vo (findEssentialMat vo q1 q2) q1 q2 (world_points s)
           = ((R, t), wp')"
    and "not_finite R \<or> not_finite_v t \<or> not_finite (form_transf R t)"
    and "20 < length q1" and "20 < length q2"
    and "shape (cur_pose s) 3 4" and "all_double (cur_pose s)"
  shows "get_pose vo q1 q2 (world_points s) = (eye 4, wp') \<and>
         cur_pose (pose_update vo s (Some (q1, q2))) = cur_pose s \<and>
         world_points (pose_update vo s (Some (q1, q2))) = wp' \<and>
         (\<exists>Q. wp' = world_points s @ [Q]) \<and>
         length wp' = Suc (length (world_points s))"
proof -
  have g: "get_pose vo q1 q2 (world_points s) = (eye 4, wp')"
    using assms(1-3) by (rule get_pose_degenerate)
  have m: "matmul (cur_pose s) (eye 4) = cur_pose s"
    using assms(6,7) by (rule matmul_eye4)
  have w: "\<exists>Q. wp' = world_points s @ [Q]"
    using decomp_old_wp [of vo "findEssentialMat vo q1 q2" q1 q2 "world_points s"] assms(2)
    by auto
  from pose_update_long [OF assms(4,5), of vo s] g m w show ?thesis
    by auto
qed

text \<open>
  The start pose, 21 correspondences and 21 triangulated points at infinity: the relative
  scale is NaN and so is the scaled translation.
\<close>

theorem C2_witness:
  "\<not> not_finite (findEssentialMat cam_inf q21 q21) \<and>
   decomp_essential_mat_old cam_inf (findEssentialMat cam_inf q21 q21) q21 q21
       (world_points (init_state :: nat vo_state))
     = ((I3, [NaN, NaN, NaN]), [Q_inf]) \<and>
   not_finite_v [NaN, NaN, NaN] \<and> 20 < length q21 \<and>
   shape (cur_pose (init_state :: nat vo_state)) 3 4 \<and>
   all_double (cur_pose (init_state :: nat vo_state)) \<and>
   get_pose cam_inf q21 q21 [] = (eye 4, [Q_inf]) \<and>
   cur_pose (pose_update cam_inf init_state (Some (q21, q21))) = start_pose \<and>
   world_points (pose_update cam_inf init_state (Some (q21, q21))) = [Q_inf]"
proof -
  have e: "findEssentialMat cam_inf q21 q21 = E0"
    by (simp add: cam_inf_def test_cam_def)
  have a: "\<not> not_finite (findEssentialMat cam_inf q21 q21)"
    by (simp add: e E0_finite)
  have b: "decomp_essential_mat_old cam_inf (findEssentialMat cam_inf q21 q21) q21 q21
             (world_points (init_state :: nat vo_state)) = ((I3, [NaN, NaN, NaN]), [Q_inf])"
    by (simp add: dec_inf init_state_def)
  have c: "not_finite_v [NaN, NaN, NaN]"
    by (simp add: not_finite_v_def any_nan_v_def isnan_def)
  then have c': "not_finite I3 \<or> not_finite_v [NaN, NaN, NaN] \<or>
                 not_finite (form_transf I3 [NaN, NaN, NaN])"
    by simp
  have d: "shape (cur_pose (init_state :: nat vo_state)) 3 4"
    and f: "all_double (cur_pose (init_state :: nat vo_state))"
    using start_pose_ok by (simp_all add: init_state_def)
  from C2_degenerate_pair_keeps_pose_and_logs_points [OF a b c' q21_long q21_long d f]
    a b c d f q21_long
  show ?thesis
    by (simp add: init_state_def)
qed

text \<open>
  The claim as stated, with nothing appended, fails there: in a video of two such frames
  the translation of the only pair is not finite, the pose after it is the start pose, and
  \<open>world_points\<close>, empty before, holds one entry.
\<close>

theorem C2_counterexample:
  "not_finite_v (snd (fst (decomp_essential_mat_old cam_inf E0 q21 q21 []))) \<and>
   get_matches cam_inf 0 1 = Inr (Some (q21, q21)) \<and>
   findEssentialMat cam_inf q21 q21 = E0 \<and>
   world_points (init_state :: nat vo_state) = [] \<and>
   map_sum id cur_pose (main_loop cam_inf init_state [0, 1]) = Inr start_pose \<and>
   map_sum id world_points (main_loop cam_inf init_state [0, 1]) = Inr [Q_inf] \<and>
   length [Q_inf] = 1"
  using run_inf
  by (simp add: dec_inf gm_inf not_finite_v_def any_nan_v_def isnan_def init_state_def)
     (simp add: cam_inf_def test_cam_def)

subsection \<open>C3: a non-finite essential matrix\<close>




subsection \<open>C4: the pose after a composition\<close>

text \<open>
  C4. For a frame pair with more than 20 correspondences the loop replaces the Cumulative
  Pose by its product with what \<open>get_pose\<close> returned, a 4 by 4 array without a NaN or an
  infinite entry; nothing tests the product. Whether a product of two such arrays can have
  an entry outside the doubles is a matter of how IEEE arithmetic rounds and of the
  magnitudes the pose and the transform can reach, which the exact finite values of this
  model do not decide; no theorem about it is stated here.
\<close>

lemma pose_after_pair_is_product:
  assumes "20 < length q1" and "20 < length q2"
  shows "shape (fst (get_pose vo q1 q2 (world_points s))) 4 4 \<and>
         all_finite (fst (get_pose vo q1 q2 (world_points s))) \<and>
         cur_pose (pose_update vo s (Some (q1, q2))) =
           matmul (cur_pose s) (fst (get_pose vo q1 q2 (world_points s)))"
  using pose_update_long [OF assms, of vo s] get_pose_finite [of vo q1 q2 "world_points s"]
  by simp

subsection \<open>C5: six keypoints or fewer\<close>

text \<open>
  C5. For a frame pair of the loop in which either image yields 6 keypoints or fewer,
  \<open>get_matches\<close> returns the pair \<open>(None, None)\<close> and raises nothing, and the pass
  of the loop for that pair goes through with the Cumulative Pose and
  \<open>world_points\<close> as they were.
\<close>

theorem C5_few_keypoints_skip:
  assumes "length (fst (detectAndCompute vo img1)) \<le> 6 \<or>
           length (fst (detectAndCompute vo img2)) \<le> 6"
    and "process_frames s" and "old_frame s = Some img1"
  shows "get_matches vo img1 img2 = Inr None \<and>
         (\<exists>s'. step vo s img2 = Inr s' \<and> cur_pose s' = cur_pose s \<and>
               world_points s' = world_points s)"
proof -
  have g: "get_matches vo img1 img2 = Inr None"
    using assms(1) by (rule get_matches_few)
  then show ?thesis
    using assms(2,3)
    by (simp add: step_def process_pair_def pose_update_def record_pose_def)
qed

text \<open>Exactly six keypoints in each image, at the second frame of the video.\<close>

theorem C5_witness:
  "length (fst (detectAndCompute cam_few 0)) \<le> 6 \<and> process_frames after_first \<and>
   old_frame after_first = Some 0 \<and> get_matches cam_few 0 1 = Inr None \<and>
   (\<exists>s'. step cam_few after_first 1 = Inr s' \<and> cur_pose s' = start_pose \<and>
         world_points s' = [])"
proof -
  have a: "length (fst (detectAndCompute cam_few 0)) \<le> 6 \<or>
           length (fst (detectAndCompute cam_few 1)) \<le> 6"
    by (simp add: cam_few_def test_cam_def)
  have b: "process_frames after_first" and c: "old_frame after_first = Some 0"
    by (simp_all add: after_first_def)
  from C5_few_keypoints_skip [OF a b c] b c show ?thesis
    by (simp add: cam_few_def test_cam_def after_first_def init_state_def)
qed

subsection \<open>C6: the ratio test\<close>

text \<open>
  While every entry of the matcher's result has its two neighbours, the loop keeps exactly
  the best neighbours that pass the test, in order. An entry with another number of
  neighbours ends the loop: what was accepted before it is kept, and no later entry is
  looked at.
\<close>

lemma ratio_loop_iff:
  "list_all (\<lambda>e. length e = 2) ms \<Longrightarrow>
   ratio_loop ms [] =
     map (\<lambda>e. e ! 0)
       (filter (\<lambda>e. flt (distance (e ! 0)) (fmul (Fin (1/2)) (distance (e ! 1)))) ms)"
  by (simp add: ratio_loop_pairs)

lemma ratio_loop_ends_at_short_entry:
  "list_all (\<lambda>e. length e = 2) pre \<Longrightarrow> length e \<noteq> 2 \<Longrightarrow>
   ratio_loop (pre @ e # rest) [] = ratio_loop pre []"
  by (rule ratio_loop_cut)

text \<open>
  C6. The claim has a match accepted if and only if its best distance is below half its
  second-best distance, an entry without a second neighbour dropped, and all other entries
  still processed. The code at a result whose first entry has one neighbour and whose second
  entry passes the test (1 < 0.5 * 4): alone, the second entry is accepted; after the short
  entry it is not, and \<open>get_matches\<close> returns no correspondence at all.
\<close>

theorem C6_ratio_loop_stops_at_short_entry:
  "flt (distance near) (fmul (Fin (1/2)) (distance far)) \<and>
   ratio_loop [[near, far]] [] = [near] \<and>
   ratio_loop [[near], [near, far]] [] = [] \<and>
   get_matches cam_short 0 1 = Inr (Some ([], []))"
  by (simp add: near_def far_def flt_def rnd_small get_matches_def cam_short_def test_cam_def)

subsection \<open>C7: the frame stride\<close>

text \<open>
  \<open>_load_images\<close> with a stride of 2 keeps every second path, 50 of 100, and the
  images that could be read among them. Nothing calls it: the script reads a video.
\<close>

lemma load_images_stride_2:
  assumes "load_images imread paths 2 = Inr imgs" and "length paths = 100"
  shows "length imgs \<le> 50"
proof -
  have "length (stride_slice 2 paths) = 50"
    using assms(2) by (simp add: stride_slice_length)
  moreover have "length (List.map_filter imread (stride_slice 2 paths))
      \<le> length (stride_slice 2 paths)"
    by (simp add: map_filter_def)
  ultimately show ?thesis
    using assms(1) by (simp add: load_images_def) 
qed

text \<open>
  C7. The claim has the pipeline, with a stride of 2 on a source of 100 frames, process 50
  frames and make 49 pairwise updates. The video loop does not read \<open>skip_frames\<close>: on
  100 frames it makes 100 passes, and 99 of them go through the pairwise branch.
\<close>

theorem C7_video_loop_reads_every_frame:
  "length frames = 100 \<Longrightarrow> main_loop vo init_state frames = Inr s \<Longrightarrow>
   frame_counter s = 100 \<and> pairs_processed s = 99"
  using main_loop_counts [of vo init_state frames s]
  by (simp add: init_state_def pairs_processed_def)

text \<open>A video of 100 frames, each with six keypoints.\<close>

theorem C7_witness:
  "length (replicate 100 (0::nat)) = 100 \<and>
   (\<exists>s. main_loop cam_few init_state (replicate 100 0) = Inr s \<and>
        frame_counter s = 100 \<and> pairs_processed s = 99)"
proof -
  have "\<exists>s. main_loop cam_few init_state (replicate 100 0) = Inr s"
    by (rule main_loop_few) (simp_all add: cam_few_def test_cam_def init_state_def)
  then obtain s where s: "main_loop cam_few init_state (replicate 100 0) = Inr s" ..
  have l: "length (replicate 100 (0::nat)) = 100" by simp
  from C7_video_loop_reads_every_frame [OF l s] s l show ?thesis
    by blast
qed

subsection \<open>C8: the scale of the translation\<close>

text \<open>
  C8. Let \<open>(R, t)\<close> be the selected candidate and let its triangulated points be a 4 by N
  array. The translation returned is \<open>t\<close> with every entry multiplied by the relative
  scale computed for \<open>(R, t)\<close>, and that relative scale is the mean, over the consecutive
  pairs of triangulated points, of the distance between the two points in Q1 divided by
  their distance in Q2.
\<close>

theorem C8_translation_scaled_by_own_relative_scale:
  assumes "pairs_of vo E ! right_pair_idx vo E q1 q2 = (R, t)"
    and "shape (tri_old vo q1 q2 R t) 4 N"
  shows "fst (decomp_essential_mat_old vo E q1 q2 wp) =
           (R, map (\<lambda>x. fmul x (snd (sum_z_cal_relative_scale vo q1 q2 R t))) t) \<and>
         snd (sum_z_cal_relative_scale vo q1 q2 R t) =
           mean_distance_ratio
             (normalize_hom (tri_old vo q1 q2 R t))
             (normalize_hom (matmul (form_transf R t) (tri_old vo q1 q2 R t)))"
proof -
  let ?hom = "tri_old vo q1 q2 R t"
  let ?hom2 = "matmul (form_transf R t) ?hom"
  have i: "right_pair_idx vo E q1 q2 < 4"
    using right_pair_idx_first_max [of vo E q1 q2] by simp
  have 1: "fst (decomp_essential_mat_old vo E q1 q2 wp) =
           (R, map (\<lambda>x. fmul x (snd (sum_z_cal_relative_scale vo q1 q2 R t))) t)"
    using assms(1) by (simp add: decomp_old_result relative_scales_nth [OF i] vscale_def)
  have n: "ncols ?hom = N"
    using assms(2) by (rule shape_ncols) simp
  have s1: "shape (normalize_hom ?hom) 3 N"
    using assms(2) by (rule normalize_hom_shape)
  have "shape ?hom2 4 (ncols ?hom)"
    using form_transf_shape by (rule shape_matmul)
  then have s2: "shape (normalize_hom ?hom2) 3 N"
    unfolding n by (rule normalize_hom_shape)
  have "ncols (normalize_hom ?hom) = N" "ncols (normalize_hom ?hom2) = N"
    using s1 s2 by (auto intro: shape_ncols)
  moreover have "length (normalize_hom ?hom) = 3" "length (normalize_hom ?hom2) = 3"
    using s1 s2 by (simp_all add: shape_def)
  ultimately have "relative_scale_of (normalize_hom ?hom) (normalize_hom ?hom2) =
      mean_distance_ratio (normalize_hom ?hom) (normalize_hom ?hom2)"
    by (intro relative_scale_refines) simp_all
  then have 2: "snd (sum_z_cal_relative_scale vo q1 q2 R t) =
      mean_distance_ratio (normalize_hom ?hom) (normalize_hom ?hom2)"
    by (simp add: sum_z_cal_relative_scale_def Let_def)
  from 1 2 show ?thesis ..
qed

text \<open>
  Two points four units apart in Q1 and one unit apart in Q2: the relative scale is 4 and
  the unit translation along Z comes back with length 4.
\<close>

theorem C8_witness:
  "pairs_of cam_quarter E0 ! right_pair_idx cam_quarter E0 q_two q_two
     = (R_quarter, [Fin 0, Fin 0, Fin 1]) \<and>
   shape (tri_old cam_quarter q_two q_two R_quarter [Fin 0, Fin 0, Fin 1]) 4 2 \<and>
   fst (decomp_essential_mat_old cam_quarter E0 q_two q_two [])
     = (R_quarter, [Fin 0, Fin 0, Fin 4]) \<and>
   mean_distance_ratio
     (normalize_hom (tri_old cam_quarter q_two q_two R_quarter [Fin 0, Fin 0, Fin 1]))
     (normalize_hom (matmul (form_transf R_quarter [Fin 0, Fin 0, Fin 1])
                            (tri_old cam_quarter q_two q_two R_quarter [Fin 0, Fin 0, Fin 1])))
     = Fin 4"
proof -
  have a: "pairs_of cam_quarter E0 ! right_pair_idx cam_quarter E0 q_two q_two
             = (R_quarter, [Fin 0, Fin 0, Fin 1])"
    by (simp add: pairs_quarter idx_quarter)
  have b: "shape (tri_old cam_quarter q_two q_two R_quarter [Fin 0, Fin 0, Fin 1]) 4 2"
    by (simp add: cam_quarter_def tri_old_test hom_two_shape)
  from C8_translation_scaled_by_own_relative_scale [OF a b, of "[]"] a b show ?thesis
    by (simp add: szc_quarter_0 rnd_small)
qed

subsection \<open>C9: the cheirality score\<close>

text \<open>
  C9. For a candidate \<open>(R, t)\<close> whose triangulated points are a 4 by N array, the first
  component of the score is the number of points whose Z coordinate, divided by the fourth
  coordinate, is strictly greater than zero in the first camera's frame, plus the number of
  such points in the second camera's frame, which is the first transformed by the candidate.
\<close>

theorem C9_cheirality_score_counts_positive_depth:
  assumes "shape (tri_old vo q1 q2 R t) 4 N"
  shows "fst (sum_z_cal_relative_scale vo q1 q2 R t) =
           cheirality_count (tri_old vo q1 q2 R t)
                            (matmul (form_transf R t) (tri_old vo q1 q2 R t))"
proof -
  let ?hom = "tri_old vo q1 q2 R t"
  let ?hom2 = "matmul (form_transf R t) ?hom"
  have "ncols ?hom = N"
    using assms by (rule shape_ncols) simp
  moreover have "shape ?hom2 4 (ncols ?hom)"
    using form_transf_shape by (rule shape_matmul)
  ultimately have "shape ?hom2 4 N"
    by simp
  from count_pos_depth [OF assms] count_pos_depth [OF this] show ?thesis
    by (simp add: sum_z_cal_relative_scale_def cheirality_count_def Let_def)
qed

text \<open>
  Two points at depth 1, moved to depth 0 by the translation against Z: both count in the
  first frame, neither in the second.
\<close>

theorem C9_witness:
  "shape (tri_old cam_skew q_two q_two I3 [Fin 0, Fin 0, Fin (- 1)]) 4 2 \<and>
   fst (sum_z_cal_relative_scale cam_skew q_two q_two I3 [Fin 0, Fin 0, Fin (- 1)]) = 2 \<and>
   cheirality_count (tri_old cam_skew q_two q_two I3 [Fin 0, Fin 0, Fin (- 1)])
     (matmul (form_transf I3 [Fin 0, Fin 0, Fin (- 1)])
             (tri_old cam_skew q_two q_two I3 [Fin 0, Fin 0, Fin (- 1)])) = 2"
proof -
  have a: "shape (tri_old cam_skew q_two q_two I3 [Fin 0, Fin 0, Fin (- 1)]) 4 2"
    by (simp add: cam_skew_def tri_old_test hom_two_shape)
  from C9_cheirality_score_counts_positive_depth [OF a] a show ?thesis
    by (simp add: szc_skew_1)
qed

subsection \<open>C10: what \<open>get_pose\<close> returns\<close>

text \<open>
  C10. Whatever the OpenCV functions return, \<open>get_pose\<close> returns a 4 by 4 array
  without a NaN or an infinite entry: the identity, or a transform that passed the test
  just before the \<open>return\<close>.
\<close>

theorem C10_get_pose_returns_finite_4x4:
  "get_pose vo q1 q2 wp = (T, wp') \<Longrightarrow>
   shape T 4 4 \<and> all_finite T \<and> (T = eye 4 \<or> (\<exists>R t. T = form_transf R t))"
  using get_pose_finite [of vo q1 q2 wp] get_pose_cases [of vo q1 q2 wp] by auto

text \<open>
  Twenty-one points on a line at depth 1 and a unit translation along X: the transform
  returned is no fallback, and finite.
\<close>

theorem C10_witness:
  "get_pose cam_line q21 q21 [] = (T_line, snd (get_pose cam_line q21 q21 [])) \<and>
   shape T_line 4 4 \<and> all_finite T_line"
proof -
  have g: "get_pose cam_line q21 q21 [] = (T_line, snd (get_pose cam_line q21 q21 []))"
    using gp_line [of q21 q21 "[]"] by (cases "get_pose cam_line q21 q21 []") simp
  from C10_get_pose_returns_finite_4x4 [OF g] g show ?thesis
    by simp
qed

end
